(* ===== verification/Prelude.thy ===== *)
theory Prelude
  imports Main
begin

text \<open>
  Shared vocabulary of the development.
  \<^item> The error monad: every exception of the Python code is a left value of a sum
    \<open>'e + 'a\<close>, and \<open>bindE\<close> sequences two steps, propagating the first exception
    unchanged (Python's default propagation: nothing in \<open>xml_visitor.py\<close> catches
    an exception except the one \<open>except DispatchError\<close> clause, modelled explicitly).
  \<^item> Python dictionaries: an association list with distinct keys in insertion order,
    updated in place when the key exists and extended at the end otherwise
    (\<open>d[k] = v\<close>), merged left to right (\<open>{**a, **b}\<close>) and looked up with
    \<open>map_of\<close>.
  \<^item> Python keyword arguments: a call \<open>f(k1=v1, **d, k2=v2)\<close> raises
    \<open>TypeError\<close> at the first keyword given twice; \<open>first_dup\<close> finds it.
\<close>

named_theorems model_defs "definitions of the model unfolded by the component proofs"

subsection \<open>Exceptions as sums\<close>

text \<open>
  The exceptions the visitor can raise: the client errors it raises itself
  (\<open>DPClientError\<close>), the \<open>KeyError\<close> of a registry lookup miss, the
  \<open>AssertionError\<close> of the \<open>View\<close> handler, the \<open>TypeError\<close> of a Python call that
  receives a keyword twice, and the \<open>FileNotFoundError\<close> of importing a missing file.
\<close>

datatype py_error =
    DPClientError string
  | KeyError string
  | AssertionError
  | TypeError string
  | FileNotFoundError string

fun bindE :: "'e + 'a \<Rightarrow> ('a \<Rightarrow> 'e + 'b) \<Rightarrow> 'e + 'b" where
  "bindE (Inl e) f = Inl e"
| "bindE (Inr a) f = f a"

subsection \<open>Python dictionaries as association lists\<close>

type_synonym ('k, 'v) pydict = "('k \<times> 'v) list"

definition dict_keys :: "('k, 'v) pydict \<Rightarrow> 'k list" where
  "dict_keys d = map fst d"

abbreviation dict_get :: "('k, 'v) pydict \<Rightarrow> 'k \<Rightarrow> 'v option" where
  "dict_get d \<equiv> map_of d"

definition dict_wf :: "('k, 'v) pydict \<Rightarrow> bool" where
  "dict_wf d \<longleftrightarrow> distinct (dict_keys d)"

text \<open>\<open>d[k] = v\<close>: the value of an existing key is replaced where it stands.\<close>

fun dict_set :: "('k, 'v) pydict \<Rightarrow> 'k \<Rightarrow> 'v \<Rightarrow> ('k, 'v) pydict" where
  "dict_set [] k v = [(k, v)]"
| "dict_set ((k', v') # d) k v =
     (if k' = k then (k, v) # d else (k', v') # dict_set d k v)"

text \<open>\<open>{**a, **b}\<close> and \<open>a.update(b)\<close>: the entries of \<open>b\<close> stored into \<open>a\<close> in order.\<close>

definition dict_merge :: "('k, 'v) pydict \<Rightarrow> ('k, 'v) pydict \<Rightarrow> ('k, 'v) pydict" where
  "dict_merge a b = foldl (\<lambda>d (k, v). dict_set d k v) a b"

text \<open>The first keyword that a Python call receives twice, scanning left to right.\<close>

fun first_dup_from :: "'a list \<Rightarrow> 'a list \<Rightarrow> 'a option" where
  "first_dup_from seen [] = None"
| "first_dup_from seen (x # xs) =
     (if x \<in> set seen then Some x else first_dup_from (x # seen) xs)"

definition first_dup :: "'a list \<Rightarrow> 'a option" where
  "first_dup xs = first_dup_from [] xs"

text \<open>
  An exception raised while the program is in state \<open>s\<close>. The error value carries
  the state the raise leaves behind, because the writes made before it persist.
\<close>

fun raise_at :: "'s \<Rightarrow> 'e + 'a \<Rightarrow> ('e \<times> 's) + 'a" where
  "raise_at s (Inl e) = Inl (e, s)"
| "raise_at s (Inr a) = Inr a"

subsection \<open>Lemmas on the error monad\<close>

lemma bindE_Inr_iff [simp]:
  "bindE m f = Inr b \<longleftrightarrow> (\<exists>a. m = Inr a \<and> f a = Inr b)"
  by (cases m) auto

lemma bindE_Inl_iff [simp]:
  "bindE m f = Inl e \<longleftrightarrow> m = Inl e \<or> (\<exists>a. m = Inr a \<and> f a = Inl e)"
  by (cases m) auto

lemma bindE_cong [fundef_cong]:
  "m = m' \<Longrightarrow> (\<And>a. m' = Inr a \<Longrightarrow> f a = g a) \<Longrightarrow> bindE m f = bindE m' g"
  by (cases m) auto

lemma bindE_assoc [simp]:
  "bindE (bindE m f) g = bindE m (\<lambda>a. bindE (f a) g)"
  by (cases m) auto

lemma bindE_case: "bindE m f = (case m of Inl e \<Rightarrow> Inl e | Inr a \<Rightarrow> f a)"
  by (cases m) auto

lemma bindE_raise_at: "bindE (raise_at s m) f = (case m of Inl e \<Rightarrow> Inl (e, s) | Inr a \<Rightarrow> f a)"
  by (cases m) auto

lemma raise_at_Inr_iff [simp]: "raise_at s m = Inr a \<longleftrightarrow> m = Inr a"
  by (cases m) auto

lemma raise_at_Inl_iff [simp]: "raise_at s m = Inl (e, s') \<longleftrightarrow> m = Inl e \<and> s' = s"
  by (cases m) auto

lemma map_sum_bindE: "map_sum id g (bindE m f) = bindE m (\<lambda>a. map_sum id g (f a))"
  by (cases m) auto

lemma bindE_map_sum:
  "bindE (map_sum id h m) f = bindE m (\<lambda>a. f (h a))"
  by (cases m) auto

subsection \<open>Lemmas on dictionaries\<close>

lemma dict_keys_simps [simp]:
  "dict_keys [] = []" "dict_keys ((k, v) # d) = k # dict_keys d"
  "dict_keys (d @ d') = dict_keys d @ dict_keys d'"
  by (simp_all add: dict_keys_def)

lemma set_dict_keys [simp]: "set (dict_keys d) = fst ` set d"
  by (simp add: dict_keys_def)

lemma dict_get_set [simp]: "dict_get (dict_set d k v) = (dict_get d)(k \<mapsto> v)"
  by (induction d) (auto simp: fun_eq_iff)

lemma dict_keys_set: "set (dict_keys (dict_set d k v)) = insert k (set (dict_keys d))"
  by (induction d k v rule: dict_set.induct) auto

lemma dict_wf_set [simp]: "dict_wf d \<Longrightarrow> dict_wf (dict_set d k v)"
proof (induction d)
  case Nil
  then show ?case by (simp add: dict_wf_def)
next
  case (Cons p d)
  then show ?case
    by (cases p) (auto simp: dict_wf_def dict_keys_set [simplified])
qed

lemma dict_set_existing:
  "k \<in> set (dict_keys d) \<Longrightarrow> dict_keys (dict_set d k v) = dict_keys d"
  by (induction d k v rule: dict_set.induct) auto

lemma dict_set_fresh:
  "k \<notin> set (dict_keys d) \<Longrightarrow> dict_set d k v = d @ [(k, v)]"
  by (induction d) auto

lemma dict_wf_merge [simp]: "dict_wf a \<Longrightarrow> dict_wf (dict_merge a b)"
  by (induction b arbitrary: a) (auto simp: dict_merge_def)

lemma dict_get_merge:
  "dict_wf b \<Longrightarrow> dict_get (dict_merge a b) = dict_get a ++ dict_get b"
proof (induction b arbitrary: a)
  case Nil
  then show ?case by (simp add: dict_merge_def)
next
  case (Cons p b)
  obtain k v where p: "p = (k, v)" by (cases p)
  with Cons.prems have "dict_wf b" and k: "dict_get b k = None"
    by (auto simp: dict_wf_def dict_keys_def map_of_eq_None_iff)
  with Cons.IH p show ?case
    by (auto simp: dict_merge_def map_add_def fun_eq_iff split: option.splits)
qed

lemma dict_keys_merge: "set (dict_keys (dict_merge a b)) = set (dict_keys a) \<union> set (dict_keys b)"
proof (induction b arbitrary: a)
  case Nil
  then show ?case by (simp add: dict_merge_def)
next
  case (Cons p b)
  then show ?case
    by (cases p) (auto simp: dict_merge_def dict_keys_set [simplified])
qed

lemma first_dup_from_None:
  "first_dup_from seen xs = None \<longleftrightarrow> distinct xs \<and> set xs \<inter> set seen = {}"
  by (induction seen xs rule: first_dup_from.induct) auto

lemma first_dup_None [simp]: "first_dup xs = None \<longleftrightarrow> distinct xs"
  by (simp add: first_dup_def first_dup_from_None)

lemma first_dup_Some: "first_dup xs = Some k \<Longrightarrow> \<not> distinct xs"
  by (metis first_dup_None option.distinct(1))

lemma first_dup_from_hit:
  "distinct xs \<Longrightarrow> set xs \<inter> set seen = {x} \<Longrightarrow> first_dup_from seen (xs @ ys) = Some x"
proof (induction xs arbitrary: seen)
  case Nil
  then show ?case by simp
next
  case (Cons a xs)
  show ?case
  proof (cases "a \<in> set seen")
    case True
    with Cons.prems show ?thesis by auto
  next
    case False
    with Cons.prems have "distinct xs" and "set xs \<inter> set (a # seen) = {x}" by auto
    with False show ?thesis by (simp add: Cons.IH)
  qed
qed

end
