(* ===== verification/Xml_Model.thy ===== *)
theory Xml_Model
  imports Prelude
begin

text \<open>
  The output side: lxml element trees as built by \<open>E = ElementMaker()\<close>
  (\<open>xml_visitor.py\<close> line 29). An element has a tag, an ordered attribute dictionary,
  and either an ordered list of children or a CDATA payload (\<open>etree.CDATA\<close>), never
  both. \<open>E_call\<close> models \<open>getattr(E, tag)(*children, **attrib)\<close>: lxml's builder
  is \<open>ElementMaker.__call__(self, tag, *children, **attrib)\<close>, so the keyword
  arguments become the attributes in call order, and a keyword given twice (or a
  keyword named \<open>tag\<close>, which collides with the positional parameter) makes Python
  raise \<open>TypeError\<close> before the element exists. \<open>mk_attribs\<close> models the
  helper of \<open>datapane.common.viewxml_utils\<close>, which is not part of this source.
\<close>

type_synonym attrs = "(string, string) pydict"

datatype xml =
    Elem string attrs "xml list"
  | CDataElem string attrs string

fun xml_tag :: "xml \<Rightarrow> string" where
  "xml_tag (Elem t _ _) = t"
| "xml_tag (CDataElem t _ _) = t"

fun xml_attrs :: "xml \<Rightarrow> attrs" where
  "xml_attrs (Elem _ a _) = a"
| "xml_attrs (CDataElem _ a _) = a"

fun xml_children :: "xml \<Rightarrow> xml list" where
  "xml_children (Elem _ _ cs) = cs"
| "xml_children (CDataElem _ _ _) = []"

text \<open>
  The keyword check of a call \<open>E.<tag>(*children, **kw)\<close>. Python first builds the
  call's keyword dictionary from left to right and raises at the first keyword given
  twice. Then \<open>partial(E, tag)\<close> binds \<open>tag\<close> positionally, so a keyword
  \<open>tag\<close> is bound a second time.
\<close>

definition kwargs_check :: "attrs \<Rightarrow> py_error option" where
  "kwargs_check kw =
     (case first_dup (dict_keys kw) of
        Some k \<Rightarrow> Some (TypeError (''got multiple values for keyword argument '' @ k))
      | None \<Rightarrow>
          if ''tag'' \<in> set (dict_keys kw) then Some (TypeError ''got multiple values for argument tag'')
          else None)"

definition E_call :: "string \<Rightarrow> xml list \<Rightarrow> attrs \<Rightarrow> py_error + xml" where
  "E_call t cs kw =
     (case kwargs_check kw of None \<Rightarrow> Inr (Elem t kw cs) | Some err \<Rightarrow> Inl err)"

definition E_cdata :: "string \<Rightarrow> string \<Rightarrow> attrs \<Rightarrow> py_error + xml" where
  "E_cdata t c kw =
     (case kwargs_check kw of None \<Rightarrow> Inr (CDataElem t kw c) | Some err \<Rightarrow> Inl err)"

text \<open>\<open>e.set(k, v)\<close> on an element that exists: the attribute dictionary is updated.\<close>

fun xml_set :: "xml \<Rightarrow> string \<Rightarrow> string \<Rightarrow> xml" where
  "xml_set (Elem t a cs) k v = Elem t (dict_set a k v) cs"
| "xml_set (CDataElem t a c) k v = CDataElem t (dict_set a k v) c"

definition bool_attr :: "bool \<Rightarrow> string" where
  "bool_attr b = (if b then ''true'' else ''false'')"

definition mk_attribs_view :: "bool \<Rightarrow> attrs" where
  "mk_attribs_view fragment = [(''version'', ''1''), (''fragment'', bool_attr fragment)]"

subsection \<open>Lemmas\<close>

definition kw_ok :: "attrs \<Rightarrow> bool" where
  "kw_ok kw \<longleftrightarrow> distinct (''tag'' # dict_keys kw)"

lemma kwargs_check_None: "kwargs_check kw = None \<longleftrightarrow> kw_ok kw"
  by (auto simp: kwargs_check_def kw_ok_def split: option.split dest: first_dup_Some)

lemma kwargs_check_Some: "kwargs_check kw = Some err \<Longrightarrow> \<not> kw_ok kw"
  by (metis kwargs_check_None option.distinct(1))

lemma kw_ok_dict_wf: "kw_ok kw \<Longrightarrow> dict_wf kw"
  by (simp add: kw_ok_def dict_wf_def)

lemma kw_ok_iff: "kw_ok kw \<longleftrightarrow> dict_wf kw \<and> ''tag'' \<notin> fst ` set kw"
  by (auto simp: kw_ok_def dict_wf_def)

lemma E_call_eq:
  "E_call t cs kw = (if kw_ok kw then Inr (Elem t kw cs) else Inl (the (kwargs_check kw)))"
proof (cases "kw_ok kw")
  case True
  then have "kwargs_check kw = None" by (simp add: kwargs_check_None)
  with True show ?thesis by (simp add: E_call_def)
next
  case False
  then obtain err where "kwargs_check kw = Some err"
    using kwargs_check_None by (cases "kwargs_check kw") auto
  with False show ?thesis by (simp add: E_call_def)
qed

lemma E_cdata_eq:
  "E_cdata t c kw = (if kw_ok kw then Inr (CDataElem t kw c) else Inl (the (kwargs_check kw)))"
proof (cases "kw_ok kw")
  case True
  then have "kwargs_check kw = None" by (simp add: kwargs_check_None)
  with True show ?thesis by (simp add: E_cdata_def)
next
  case False
  then obtain err where "kwargs_check kw = Some err"
    using kwargs_check_None by (cases "kwargs_check kw") auto
  with False show ?thesis by (simp add: E_cdata_def)
qed

lemma E_call_Inr [simp]: "E_call t cs kw = Inr e \<longleftrightarrow> kw_ok kw \<and> e = Elem t kw cs"
  by (auto simp: E_call_eq)

lemma E_call_ok [simp]: "kw_ok kw \<Longrightarrow> E_call t cs kw = Inr (Elem t kw cs)"
  by simp

lemma E_cdata_Inr [simp]: "E_cdata t c kw = Inr e \<longleftrightarrow> kw_ok kw \<and> e = CDataElem t kw c"
  by (auto simp: E_cdata_eq)

lemma xml_tag_set [simp]: "xml_tag (xml_set e k v) = xml_tag e"
  by (cases e) auto

lemma xml_attrs_set [simp]: "xml_attrs (xml_set e k v) = dict_set (xml_attrs e) k v"
  by (cases e) auto

lemma kw_ok_mk_attribs_view [simp]: "kw_ok (mk_attribs_view f)"
  by (simp add: kw_ok_def mk_attribs_view_def)

lemma kw_ok_dict_set [simp]: "k \<noteq> ''tag'' \<Longrightarrow> kw_ok a \<Longrightarrow> kw_ok (dict_set a k v)"
  by (simp add: kw_ok_iff dict_keys_set [simplified])

lemma kw_ok_single [simp]: "k \<noteq> ''tag'' \<Longrightarrow> kw_ok [(k, v)]"
  by (simp add: kw_ok_def)

end
