(* ===== verification/File_Store.thy ===== *)
theory File_Store
  imports Xml_Model
begin

text \<open>
  The content store, \<open>datapane.processors.FileStore\<close> and its \<open>FileEntry\<close>: not part
  of this source, so modelled from the interface the visitor consumes (spec section 6):
  \<open>get_file(ext, mime)\<close> allocates a fresh entry of the store's entry class
  \<open>fw_klass\<close>, \<open>load_file(path)\<close> imports an existing file as an entry,
  \<open>add_file(fe)\<close> registers an entry under its content hash (registering the same
  content again replaces the entry and adds nothing), and \<open>files\<close> counts the
  registered entries. The hash is modelled as the content itself, that is, as a
  collision-free content address. The Python class of an entry, which the visitor
  compares with \<open>type(...) == store.fw_klass\<close>, is a number.
\<close>

record file_entry =
  fe_klass :: nat
  fe_name :: nat
  fe_ext :: string
  fe_mime :: string
  fe_content :: string

definition content_hash :: "string \<Rightarrow> string" where
  "content_hash c = c"

definition fe_hash :: "file_entry \<Rightarrow> string" where
  "fe_hash fe = content_hash (fe_content fe)"

record store =
  fw_klass :: nat
  files :: "(string, file_entry) pydict"
  allocs :: nat
  disk :: "(string, string \<times> string \<times> string) pydict"

definition get_file :: "string \<Rightarrow> string \<Rightarrow> store \<Rightarrow> file_entry \<times> store" where
  "get_file ext mime st =
     (\<lparr>fe_klass = fw_klass st, fe_name = allocs st, fe_ext = ext, fe_mime = mime,
       fe_content = []\<rparr>,
      st\<lparr>allocs := Suc (allocs st)\<rparr>)"

definition add_file :: "file_entry \<Rightarrow> store \<Rightarrow> store" where
  "add_file fe st = st\<lparr>files := dict_set (files st) (fe_hash fe) fe\<rparr>"

definition load_file :: "string \<Rightarrow> store \<Rightarrow> py_error + (file_entry \<times> store)" where
  "load_file path st =
     (case dict_get (disk st) path of
        None \<Rightarrow> Inl (FileNotFoundError path)
      | Some (ext, mime, content) \<Rightarrow>
          (let (fe, st1) = get_file ext mime st;
               fe' = fe\<lparr>fe_content := content\<rparr>
           in Inr (fe', add_file fe' st1)))"

definition store_count :: "store \<Rightarrow> nat" where
  "store_count st = length (files st)"

text \<open>
  The store invariant: the registry is a dictionary and every entry sits under its own
  hash and belongs to this store's entry class.
\<close>

definition store_wf :: "store \<Rightarrow> bool" where
  "store_wf st \<longleftrightarrow> dict_wf (files st) \<and>
     (\<forall>(h, fe) \<in> set (files st). h = fe_hash fe \<and> fe_klass fe = fw_klass st)"

definition entry_of :: "store \<Rightarrow> file_entry \<Rightarrow> bool" where
  "entry_of st fe \<longleftrightarrow> fe_klass fe = fw_klass st"

subsection \<open>Lemmas\<close>

lemma get_file_simps [simp]:
  "fst (get_file ext mime st) =
     \<lparr>fe_klass = fw_klass st, fe_name = allocs st, fe_ext = ext, fe_mime = mime, fe_content = []\<rparr>"
  "snd (get_file ext mime st) = st\<lparr>allocs := Suc (allocs st)\<rparr>"
  by (simp_all add: get_file_def)

lemma add_file_simps [simp]:
  "fw_klass (add_file fe st) = fw_klass st"
  "allocs (add_file fe st) = allocs st"
  "disk (add_file fe st) = disk st"
  "files (add_file fe st) = dict_set (files st) (fe_hash fe) fe"
  by (simp_all add: add_file_def)

lemma set_dict_set_sub: "set (dict_set d k v) \<subseteq> insert (k, v) (set d)"
  by (induction d k v rule: dict_set.induct) auto

lemma store_wf_add_file [intro]:
  "store_wf st \<Longrightarrow> entry_of st fe \<Longrightarrow> store_wf (add_file fe st)"
  using set_dict_set_sub [of "files st" "fe_hash fe" fe]
  by (fastforce simp: store_wf_def entry_of_def)

lemma load_file_Inr:
  "load_file p st = Inr (fe, st') \<longleftrightarrow>
     (\<exists>ext mime c. dict_get (disk st) p = Some (ext, mime, c) \<and>
        fe = \<lparr>fe_klass = fw_klass st, fe_name = allocs st, fe_ext = ext, fe_mime = mime,
              fe_content = c\<rparr> \<and>
        st' = add_file fe (st\<lparr>allocs := Suc (allocs st)\<rparr>))"
  by (auto simp: load_file_def get_file_def Let_def split: option.splits prod.splits)

lemma store_count_add_file_same:
  "dict_get (files st) (fe_hash fe) \<noteq> None \<Longrightarrow> store_count (add_file fe st) = store_count st"
  by (simp add: store_count_def add_file_def dict_set_existing map_of_eq_None_iff
      flip: length_map [of fst] dict_keys_def)

end
