(* ===== verification/Blocks.thy ===== *)
theory Blocks
  imports File_Store
begin

text \<open>
  The input side: the block tree the visitor walks. The block classes live in
  \<open>datapane.blocks\<close>, outside this source; what the visitor reads of them is
  modelled, one constructor per class its multimethod dispatches on
  (\<open>xml_visitor.py\<close> lines 52-134): \<open>BaseElement\<close> (tag and attributes),
  \<open>ContainerBlock\<close> (children), \<open>EmbeddedTextBlock\<close> (text content),
  \<open>Interactive\<close> (the XML of its controls, its target mode and attributes),
  \<open>AssetBlock\<close> and \<open>View\<close> (fragment flag and children).
  An asset block is the one object the visitor mutates (\<open>b._prev_entry = fe\<close>,
  line 162), and the same asset object may occur several times in a tree. Asset blocks
  are therefore kept in a heap of objects, and the tree holds their addresses.
\<close>

datatype asset_kind = Plot | Table | DataTable | Attachment | Media

fun kind_name :: "asset_kind \<Rightarrow> string" where
  "kind_name Plot = ''Plot''"
| "kind_name Table = ''Table''"
| "kind_name DataTable = ''DataTable''"
| "kind_name Attachment = ''Attachment''"
| "kind_name Media = ''Media''"

text \<open>An inline payload \<open>b.data\<close>: its Python type name and its value.\<close>

datatype payload = Payload (payload_type: string) (payload_value: string)

datatype target_mode = SELF | BELOW | SIDE | TOP

record asset_block =
  a_kind :: asset_kind
  a_tag :: string
  a_attrs :: attrs
  a_file_attribs :: attrs
  a_data :: "payload option"
  a_file :: "string option"
  a_caption :: "string option"
  a_prev :: "file_entry option"

type_synonym asset_heap = "nat \<Rightarrow> asset_block"

datatype block =
    BElement string attrs
  | BContainer string attrs "block list"
  | BText string attrs string
  | BInteractive attrs xml target_mode
  | BAsset nat
  | BView bool "block list"

text \<open>Addresses of the asset blocks of a tree, and the trees without a nested view.\<close>

fun asset_ids :: "block \<Rightarrow> nat set" where
  "asset_ids (BContainer t a bs) = (\<Union>b \<in> set bs. asset_ids b)"
| "asset_ids (BAsset i) = {i}"
| "asset_ids (BView f bs) = (\<Union>b \<in> set bs. asset_ids b)"
| "asset_ids _ = {}"

fun no_view :: "block \<Rightarrow> bool" where
  "no_view (BContainer t a bs) \<longleftrightarrow> list_all no_view bs"
| "no_view (BView f bs) \<longleftrightarrow> False"
| "no_view _ \<longleftrightarrow> True"

text \<open>Number of fresh target names a tree asks for (one per \<open>SELF\<close>, \<open>BELOW\<close>, \<open>SIDE\<close>).\<close>

fun named_targets :: "block \<Rightarrow> nat" where
  "named_targets (BContainer t a bs) = sum_list (map named_targets bs)"
| "named_targets (BView f bs) = sum_list (map named_targets bs)"
| "named_targets (BInteractive a c tm) = (if tm = TOP then 0 else 1)"
| "named_targets _ = 0"

end
