(* ===== verification/Writers.thy ===== *)
theory Writers
  imports Blocks
begin

text \<open>
  The asset writer registry (\<open>xml_visitor.py\<close> lines 166-197). \<open>AssetMeta\<close> is the
  pair (extension, mime type); a writer (\<open>AssetWriterP\<close>) computes it from a payload
  and serialises the payload, and either may raise \<open>DispatchError\<close> for a payload type
  it does not support (modelled as \<open>None\<close>). The writer classes live in
  \<open>asset_writers\<close>, outside this source: \<open>W\<close> gives the writer class registered
  for each kind (\<open>W Plot\<close> is \<open>PlotWriter\<close>, \<open>W Table\<close> is \<open>HTMLTableWriter\<close>,
  and so on). \<open>asset_mapping\<close> is a module-level dictionary, filled on first use;
  a lookup of a kind it does not hold is Python's \<open>KeyError\<close>.
\<close>

record asset_meta =
  am_ext :: string
  am_mime :: string

record writer =
  get_meta :: "payload \<Rightarrow> asset_meta option"
  write_file :: "payload \<Rightarrow> string option"

type_synonym asset_mapping = "(asset_kind, writer) pydict"

definition default_mapping :: "(asset_kind \<Rightarrow> writer) \<Rightarrow> asset_mapping" where
  "default_mapping W =
     [(Plot, W Plot), (Table, W Table), (DataTable, W DataTable), (Attachment, W Attachment)]"

text \<open>
  Lines 183-197. The registry update of lines 188-196 persists even when the lookup
  then raises \<open>KeyError\<close>, so the mapping after the call is returned together with
  the lookup's outcome.
\<close>

definition get_writer ::
  "(asset_kind \<Rightarrow> writer) \<Rightarrow> asset_mapping \<Rightarrow> asset_kind \<Rightarrow> asset_mapping \<times> (py_error + writer)"
where
  "get_writer W m k =
     (let m' = (case m of [] \<Rightarrow> dict_merge m (default_mapping W) | _ \<Rightarrow> m)
      in (m', case dict_get m' k of
                None \<Rightarrow> Inl (KeyError (kind_name k))
              | Some w \<Rightarrow> Inr w))"

text \<open>The registry is either not yet filled or holds exactly the four default writers.\<close>

definition mapping_wf :: "(asset_kind \<Rightarrow> writer) \<Rightarrow> asset_mapping \<Rightarrow> bool" where
  "mapping_wf W m \<longleftrightarrow> m = [] \<or> m = default_mapping W"

lemma dict_merge_Nil_default [simp]: "dict_merge [] (default_mapping W) = default_mapping W"
  by (simp add: dict_merge_def default_mapping_def)

lemma mapping_fill:
  "mapping_wf W m \<Longrightarrow> (case m of [] \<Rightarrow> dict_merge m (default_mapping W) | _ \<Rightarrow> m) = default_mapping W"
  by (auto simp: mapping_wf_def default_mapping_def dict_merge_def)

lemma get_writer_filled:
  "mapping_wf W m \<Longrightarrow> get_writer W m k =
     (default_mapping W, case dict_get (default_mapping W) k of
        None \<Rightarrow> Inl (KeyError (kind_name k))
      | Some w \<Rightarrow> Inr w)"
  by (simp add: get_writer_def mapping_fill Let_def)

lemma dict_get_default_mapping:
  "dict_get (default_mapping W) k = (if k = Media then None else Some (W k))"
  by (cases k) (simp_all add: default_mapping_def)

end
