(* ===== verification/Names.thy ===== *)
theory Names
  imports Prelude
begin

text \<open>
  Fresh target names, \<open>datapane.blocks.interactive.gen_name\<close>: not part of this
  source, modelled from its contract (globally unique per call) as a counter threaded
  through the traversal. The \<open>n\<close>-th name is a fixed prefix followed by the decimal
  digits of \<open>n\<close>; \<open>read_name\<close> recovers \<open>n\<close>, so names drawn at different
  counter values differ.
\<close>

definition digit_char :: "nat \<Rightarrow> char" where
  "digit_char d = char_of (48 + d)"

fun nat_digits :: "nat \<Rightarrow> string" where
  "nat_digits n = (if n < 10 then [digit_char n] else nat_digits (n div 10) @ [digit_char (n mod 10)])"

definition digit_val :: "char \<Rightarrow> nat option" where
  "digit_val c = (let k = of_char c in if 48 \<le> k \<and> k < 58 then Some (k - 48) else None)"

fun read_digits :: "nat \<Rightarrow> string \<Rightarrow> nat option" where
  "read_digits acc [] = Some acc"
| "read_digits acc (c # cs) =
     (case digit_val c of None \<Rightarrow> None | Some d \<Rightarrow> read_digits (10 * acc + d) cs)"

definition name_prefix :: string where
  "name_prefix = ''target_''"

definition name_of :: "nat \<Rightarrow> string" where
  "name_of n = name_prefix @ nat_digits n"

definition read_name :: "string \<Rightarrow> nat option" where
  "read_name s =
     (if take (length name_prefix) s = name_prefix \<and> length s > length name_prefix
      then read_digits 0 (drop (length name_prefix) s) else None)"

text \<open>\<open>gen_name()\<close>: the next name and the advanced counter.\<close>

definition gen_name :: "nat \<Rightarrow> string \<times> nat" where
  "gen_name ctr = (name_of ctr, Suc ctr)"

declare nat_digits.simps [simp del]

lemma digit_val_digit_char [simp]: "d < 10 \<Longrightarrow> digit_val (digit_char d) = Some d"
  by (simp add: digit_val_def digit_char_def)

lemma read_digits_append:
  "read_digits acc (xs @ ys) = (case read_digits acc xs of None \<Rightarrow> None | Some a \<Rightarrow> read_digits a ys)"
  by (induction acc xs rule: read_digits.induct) (auto split: option.splits)

lemma nat_digits_nonempty [simp]: "nat_digits n \<noteq> []"
  by (subst nat_digits.simps) simp

lemma read_nat_digits:
  "read_digits acc (nat_digits n) = Some (acc * 10 ^ length (nat_digits n) + n)"
proof (induction n arbitrary: acc rule: nat_digits.induct)
  case (1 n)
  show ?case
  proof (cases "n < 10")
    case True
    then show ?thesis by (subst (1 2) nat_digits.simps) simp
  next
    case False
    then have eq: "nat_digits n = nat_digits (n div 10) @ [digit_char (n mod 10)]"
      by (subst nat_digits.simps) simp
    have "10 * (acc * 10 ^ length (nat_digits (n div 10)) + n div 10) + n mod 10
        = acc * 10 ^ Suc (length (nat_digits (n div 10))) + n"
      by simp
    with False "1.IH" show ?thesis
      by (simp add: eq read_digits_append)
  qed
qed

lemma read_name_of: "read_name (name_of n) = Some n"
  using read_nat_digits [of 0 n]
  by (simp add: read_name_def name_of_def name_prefix_def)

lemma name_of_inj: "inj name_of"
  by (rule inj_on_inverseI [where g = "\<lambda>s. the (read_name s)"]) (simp add: read_name_of)

lemma digit_chars:
  "digit_char 0 = CHR ''0''" "digit_char 1 = CHR ''1''" "digit_char 2 = CHR ''2''"
  "digit_char 3 = CHR ''3''" "digit_char 4 = CHR ''4''" "digit_char 5 = CHR ''5''"
  "digit_char 6 = CHR ''6''" "digit_char 7 = CHR ''7''" "digit_char 8 = CHR ''8''"
  "digit_char 9 = CHR ''9''"
  by (simp_all add: digit_char_def char_of_def bit_0)

end
