(* ===== verification/Visitor.thy ===== *)
theory Visitor
  imports Writers Names
begin

text \<open>
  The visitor \<open>XMLBuilder\<close> of \<open>datapane/view/xml_visitor.py\<close> (lines 32-163).
  Its state is the record \<open>vstate\<close>: the accumulator \<open>elements\<close> (the instance field
  of line 40), the content store it was built with, the heap of asset block objects
  (whose \<open>_prev_entry\<close> slot it writes), the module-level \<open>asset_mapping\<close> and the
  counter behind \<open>gen_name\<close>. Each \<open>visit\<close> method of the multimethod is one equation
  of \<open>visit_block\<close>. An exception is a left value that aborts the traversal. It
  carries the state the raise leaves behind: the files already allocated or registered,
  the memos already written, the filled registry, the advanced name counter, and the
  accumulator as the aborted container left it.
  The handlers for interactive and asset blocks first build their element
  (\<open>interactive_element\<close>, \<open>asset_element\<close>) and then call \<open>add_element\<close>,
  as the code does.
\<close>

type_synonym writers = "asset_kind \<Rightarrow> writer"

record vstate =
  elements :: "xml list"
  store :: store
  heap :: asset_heap
  mapping :: asset_mapping
  name_ctr :: nat

text \<open>
  The outcome of a handler that produces a value: an exception with the state it leaves,
  or the value with the new state. A whole visit produces only the new state.
\<close>

type_synonym 'a outcome = "(py_error \<times> vstate) + ('a \<times> vstate)"
type_synonym run = "(py_error \<times> vstate) + vstate"

definition XMLBuilder :: "store \<Rightarrow> asset_heap \<Rightarrow> asset_mapping \<Rightarrow> nat \<Rightarrow> vstate" where
  "XMLBuilder st h m n = \<lparr>elements = [], store = st, heap = h, mapping = m, name_ctr = n\<rparr>"

definition builder_store_count :: "vstate \<Rightarrow> nat" where
  "builder_store_count s = store_count (store s)"

definition add_element :: "xml \<Rightarrow> vstate \<Rightarrow> vstate" where
  "add_element e s = s\<lparr>elements := elements s @ [e]\<rparr>"

definition next_name :: "vstate \<Rightarrow> string \<times> vstate" where
  "next_name s = (let (n, c) = gen_name (name_ctr s) in (n, s\<lparr>name_ctr := c\<rparr>))"

subsection \<open>Interactive blocks (lines 92-114)\<close>

text \<open>
  \<open>gen_name()\<close> runs before the element calls, so a \<open>TypeError\<close> of a call leaves
  the name counter advanced.
\<close>

definition interactive_element :: "attrs \<Rightarrow> xml \<Rightarrow> target_mode \<Rightarrow> vstate \<Rightarrow> xml outcome" where
  "interactive_element a c_e tm s =
     (if tm = SELF then
        (let (name, s1) = next_name s in
         bindE (raise_at s1 (E_call ''Interactive'' [c_e] (dict_set (dict_set a ''target'' name) ''name'' name)))
           (\<lambda>e. Inr (e, s1)))
      else if tm \<in> {BELOW, SIDE} then
        (let cols = (if tm = BELOW then ''1'' else ''2'');
             (name, s1) = next_name s
         in bindE (raise_at s1 (E_call ''Interactive'' [c_e] (dict_set a ''target'' name))) (\<lambda>i.
            bindE (raise_at s1 (E_call ''Empty'' [] [(''name'', name)])) (\<lambda>em.
            bindE (raise_at s1 (E_call ''Group'' [em] [(''columns'', ''1'')])) (\<lambda>g.
            bindE (raise_at s1 (E_call ''Group'' [i, g] [(''columns'', cols)])) (\<lambda>e.
            Inr (e, s1))))))
      else bindE (raise_at s (E_call ''Interactive'' [c_e] a)) (\<lambda>e. Inr (e, s)))"

definition visit_interactive :: "attrs \<Rightarrow> xml \<Rightarrow> target_mode \<Rightarrow> vstate \<Rightarrow> run" where
  "visit_interactive a c_e tm s =
     bindE (interactive_element a c_e tm s) (\<lambda>(e, s1). Inr (add_element e s1))"

subsection \<open>Asset blocks (lines 116-163)\<close>

text \<open>\<open>b._prev_entry = fe\<close>: the only write to a block.\<close>

definition memo :: "nat \<Rightarrow> file_entry \<Rightarrow> vstate \<Rightarrow> vstate" where
  "memo i fe s = s\<lparr>heap := (heap s)(i := (heap s i)\<lparr>a_prev := Some fe\<rparr>)\<rparr>"

definition dispatch_error_msg :: "payload \<Rightarrow> string" where
  "dispatch_error_msg d = payload_type d @ '' not supported for XMLBuilder''"

text \<open>
  Lines 149-156: the \<open>try\<close> block. A \<open>DispatchError\<close> of \<open>get_meta\<close> or
  \<open>write_file\<close> becomes the client error. The \<open>KeyError\<close> of \<open>get_writer\<close> is
  not a \<open>DispatchError\<close> and passes through unchanged. The registry is filled
  before the lookup. The entry is allocated before \<open>write_file\<close> runs, and is
  registered only after it returns.
\<close>

definition write_asset :: "writers \<Rightarrow> asset_block \<Rightarrow> payload \<Rightarrow> vstate \<Rightarrow> file_entry outcome" where
  "write_asset W b d s =
     (let (m', r) = get_writer W (mapping s) (a_kind b);
          s0 = s\<lparr>mapping := m'\<rparr>
      in bindE (raise_at s0 r) (\<lambda>w.
         case get_meta w d of
           None \<Rightarrow> Inl (DPClientError (dispatch_error_msg d), s0)
         | Some meta \<Rightarrow>
             (let (fe, st1) = get_file (am_ext meta) (am_mime meta) (store s0);
                  s1 = s0\<lparr>store := st1\<rparr>
              in case write_file w d of
                   None \<Rightarrow> Inl (DPClientError (dispatch_error_msg d), s1)
                 | Some content \<Rightarrow>
                     (let fe' = fe\<lparr>fe_content := content\<rparr>
                      in Inr (fe', s1\<lparr>store := add_file fe' st1\<rparr>)))))"

text \<open>Lines 147-163: no usable memo, so write the inline data or import the file.\<close>

definition store_new_asset :: "writers \<Rightarrow> nat \<Rightarrow> vstate \<Rightarrow> file_entry outcome" where
  "store_new_asset W i s =
     (let b = heap s i in
      case a_data b of
        Some d \<Rightarrow> bindE (write_asset W b d s) (\<lambda>(fe, s1). Inr (fe, memo i fe s1))
      | None \<Rightarrow>
          (case a_file b of
             Some p \<Rightarrow>
               bindE (raise_at s (load_file p (store s))) (\<lambda>(fe, st1). Inr (fe, memo i fe (s\<lparr>store := st1\<rparr>)))
           | None \<Rightarrow> Inl (DPClientError ''No asset to add'', s)))"

definition add_asset_to_store :: "writers \<Rightarrow> nat \<Rightarrow> vstate \<Rightarrow> file_entry outcome" where
  "add_asset_to_store W i s =
     (case a_prev (heap s i) of
        Some pe \<Rightarrow>
          if fe_klass pe = fw_klass (store s)
          then Inr (pe, s\<lparr>store := add_file pe (store s)\<rparr>)
          else store_new_asset W i s
      | None \<Rightarrow> store_new_asset W i s)"

text \<open>Lines 123-130: \<open>_E(type=..., **{**attrs, **file_attribs}, src=...)\<close>.\<close>

definition asset_kwargs :: "file_entry \<Rightarrow> asset_block \<Rightarrow> attrs" where
  "asset_kwargs fe b =
     [(''type'', fe_mime fe)] @ dict_merge (a_attrs b) (a_file_attribs b) @
     [(''src'', ''ref://'' @ fe_hash fe)]"

text \<open>Lines 132-133: \<open>if b.caption: e.set("caption", b.caption)\<close>; an empty caption is falsy.\<close>

definition set_caption :: "asset_block \<Rightarrow> xml \<Rightarrow> xml" where
  "set_caption b e =
     (case a_caption b of
        Some c \<Rightarrow> if c \<noteq> [] then xml_set e ''caption'' c else e
      | None \<Rightarrow> e)"

text \<open>The element call runs after the asset is stored: its \<open>TypeError\<close> keeps the store's writes.\<close>

definition asset_element :: "writers \<Rightarrow> nat \<Rightarrow> vstate \<Rightarrow> xml outcome" where
  "asset_element W i s =
     bindE (add_asset_to_store W i s) (\<lambda>(fe, s1).
       let b = heap s1 i
       in bindE (raise_at s1 (E_call (a_tag b) [] (asset_kwargs fe b))) (\<lambda>e. Inr (set_caption b e, s1)))"

definition visit_asset :: "writers \<Rightarrow> nat \<Rightarrow> vstate \<Rightarrow> run" where
  "visit_asset W i s = bindE (asset_element W i s) (\<lambda>(e, s1). Inr (add_element e s1))"

subsection \<open>The traversal (lines 52-90)\<close>

text \<open>
  \<open>visit_blocks\<close> is \<open>b.traverse(self)\<close>: each child accepts the visitor in order.
  The container handler saves the accumulator, clears it, visits the children, wraps
  them, restores the saved list and appends its own element. If a child raises, the
  restore never runs, and the exception leaves the children's partial list in
  \<open>self.elements\<close>. The view handler asserts an empty accumulator and replaces it by
  the single \<open>View\<close> element.
\<close>

fun visit_block :: "writers \<Rightarrow> block \<Rightarrow> vstate \<Rightarrow> run"
and visit_blocks :: "writers \<Rightarrow> block list \<Rightarrow> vstate \<Rightarrow> run" where
  "visit_block W (BElement t a) s = bindE (raise_at s (E_call t [] a)) (\<lambda>e. Inr (add_element e s))"
| "visit_block W (BContainer t a bs) s =
     (let cur_elemnts = elements s
      in bindE (visit_blocks W bs (s\<lparr>elements := []\<rparr>)) (\<lambda>s1.
         bindE (raise_at s1 (E_call t (elements s1) a)) (\<lambda>e.
         Inr (add_element e (s1\<lparr>elements := cur_elemnts\<rparr>)))))"
| "visit_block W (BText t a c) s = bindE (raise_at s (E_cdata t c a)) (\<lambda>e. Inr (add_element e s))"
| "visit_block W (BInteractive a c_e tm) s = visit_interactive a c_e tm s"
| "visit_block W (BAsset i) s = visit_asset W i s"
| "visit_block W (BView f bs) s =
     (if elements s \<noteq> [] then Inl (AssertionError, s)
      else bindE (visit_blocks W bs s) (\<lambda>s1.
           bindE (raise_at s1 (E_call ''View'' (elements s1) (mk_attribs_view f))) (\<lambda>e.
           Inr (s1\<lparr>elements := [e]\<rparr>))))"
| "visit_blocks W [] s = Inr s"
| "visit_blocks W (b # bs) s = bindE (visit_block W b s) (visit_blocks W bs)"

text \<open>Building a document: a fresh builder over a store visits the view.\<close>

definition build_view ::
  "writers \<Rightarrow> store \<Rightarrow> asset_heap \<Rightarrow> asset_mapping \<Rightarrow> nat \<Rightarrow> bool \<Rightarrow> block list \<Rightarrow> run"
where
  "build_view W st h m n f bs = visit_block W (BView f bs) (XMLBuilder st h m n)"

text \<open>The state a run or a handler leaves, whether it returned or raised.\<close>

definition run_state :: "run \<Rightarrow> vstate" where
  "run_state r = (case r of Inl (e, s) \<Rightarrow> s | Inr s \<Rightarrow> s)"

definition step_state :: "'a outcome \<Rightarrow> vstate" where
  "step_state r = (case r of Inl (e, s) \<Rightarrow> s | Inr (a, s) \<Rightarrow> s)"

text \<open>
  A usable memo: the block's \<open>_prev_entry\<close> is set and of the store's entry class,
  the condition of line 143.
\<close>

definition memo_valid :: "vstate \<Rightarrow> nat \<Rightarrow> bool" where
  "memo_valid s i \<longleftrightarrow>
     (case a_prev (heap s i) of Some fe \<Rightarrow> fe_klass fe = fw_klass (store s) | None \<Rightarrow> False)"

text \<open>A usable memo that is also registered in the store under its hash.\<close>

definition memo_stored :: "vstate \<Rightarrow> nat \<Rightarrow> bool" where
  "memo_stored s i \<longleftrightarrow>
     (case a_prev (heap s i) of
        Some fe \<Rightarrow> fe_klass fe = fw_klass (store s) \<and> fe_hash fe \<in> set (dict_keys (files (store s)))
      | None \<Rightarrow> False)"

text \<open>
  The keyword names of the asset element call (lines 123-130) are accepted: none of the
  block's attributes is \<open>type\<close>, \<open>src\<close> or \<open>tag\<close>. The names do not depend on
  the entry, only on the block.
\<close>

definition asset_keys_ok :: "asset_block \<Rightarrow> bool" where
  "asset_keys_ok b \<longleftrightarrow>
     distinct (''tag'' # ''type'' # dict_keys (dict_merge (a_attrs b) (a_file_attribs b)) @ [''src''])"

text \<open>The element emitted for an asset block stored as entry \<open>fe\<close>.\<close>

definition asset_xml :: "asset_block \<Rightarrow> file_entry \<Rightarrow> xml" where
  "asset_xml b fe = set_caption b (Elem (a_tag b) (asset_kwargs fe b) [])"

text \<open>
  A handler step is blind to the accumulator when it neither reads nor writes
  \<open>elements\<close>, whether it returns or raises: the interface between the leaf handlers
  and the traversal.
\<close>

definition acc_blind :: "(vstate \<Rightarrow> 'a outcome) \<Rightarrow> bool" where
  "acc_blind f \<longleftrightarrow>
     (\<forall>s x. f (s\<lparr>elements := x\<rparr>) =
        map_sum (\<lambda>(e, s'). (e, s'\<lparr>elements := x\<rparr>)) (\<lambda>(a, s'). (a, s'\<lparr>elements := x\<rparr>)) (f s)) \<and>
     (\<forall>s. elements (step_state (f s)) = elements s)"

subsection \<open>Lemmas on the handlers\<close>

abbreviation acc_upd :: "xml list \<Rightarrow> 'a outcome \<Rightarrow> 'a outcome" where
  "acc_upd x \<equiv> map_sum (\<lambda>(e, s'). (e, s'\<lparr>elements := x\<rparr>)) (\<lambda>(a, s'). (a, s'\<lparr>elements := x\<rparr>))"

lemmas outcome_splits = sum.split prod.split option.split

lemma step_state_simps [simp]:
  "step_state (Inl (e, s)) = s" "step_state (Inr (a, s)) = s"
  by (simp_all add: step_state_def)

lemma run_state_simps [simp]:
  "run_state (Inl (e, s)) = s" "run_state (Inr s) = s"
  by (simp_all add: run_state_def)

lemma acc_blind_interactive: "acc_blind (interactive_element a c tm)"
  unfolding acc_blind_def interactive_element_def next_name_def gen_name_def step_state_def
  by (auto simp: Let_def E_call_eq)

lemma write_asset_blind:
  "write_asset W b d (s\<lparr>elements := x\<rparr>) = acc_upd x (write_asset W b d s)"
  "elements (step_state (write_asset W b d s)) = elements s"
  by (auto simp: write_asset_def get_file_def step_state_def Let_def bindE_case bindE_raise_at
      split: outcome_splits)

lemma step_state_elementsD:
  "elements (step_state r) = elements s \<Longrightarrow> r = Inl (e, s') \<Longrightarrow> elements s' = elements s"
  "elements (step_state r) = elements s \<Longrightarrow> r = Inr (a, s') \<Longrightarrow> elements s' = elements s"
  by simp_all

lemmas write_asset_elements = step_state_elementsD [OF write_asset_blind(2)]

lemma store_new_asset_blind:
  "store_new_asset W i (s\<lparr>elements := x\<rparr>) = acc_upd x (store_new_asset W i s)"
  "elements (step_state (store_new_asset W i s)) = elements s"
  by (auto simp: store_new_asset_def Let_def bindE_case bindE_raise_at memo_def write_asset_blind(1)
      dest: write_asset_elements split: outcome_splits)

lemmas store_new_asset_elements = step_state_elementsD [OF store_new_asset_blind(2)]

lemma write_asset_Inr:
  "write_asset W b d s = Inr (fe, s') \<longleftrightarrow>
     (\<exists>w meta c. snd (get_writer W (mapping s) (a_kind b)) = Inr w \<and>
        get_meta w d = Some meta \<and> write_file w d = Some c \<and>
        fe = \<lparr>fe_klass = fw_klass (store s), fe_name = allocs (store s), fe_ext = am_ext meta,
              fe_mime = am_mime meta, fe_content = c\<rparr> \<and>
        s' = s\<lparr>store := add_file fe ((store s)\<lparr>allocs := Suc (allocs (store s))\<rparr>),
               mapping := fst (get_writer W (mapping s) (a_kind b))\<rparr>)"
  by (auto simp: write_asset_def get_file_def Let_def bindE_case bindE_raise_at split: outcome_splits)

lemma store_new_asset_Inr:
  "store_new_asset W i s = Inr (fe, s') \<longleftrightarrow>
     (case a_data (heap s i) of
        Some d \<Rightarrow> (\<exists>s1. write_asset W (heap s i) d s = Inr (fe, s1) \<and> s' = memo i fe s1)
      | None \<Rightarrow> (case a_file (heap s i) of
           Some p \<Rightarrow> (\<exists>st1. load_file p (store s) = Inr (fe, st1) \<and> s' = memo i fe (s\<lparr>store := st1\<rparr>))
         | None \<Rightarrow> False))"
  by (auto simp: store_new_asset_def Let_def bindE_case bindE_raise_at split: outcome_splits)

lemma add_asset_blind:
  "add_asset_to_store W i (s\<lparr>elements := x\<rparr>) = acc_upd x (add_asset_to_store W i s)"
  "elements (step_state (add_asset_to_store W i s)) = elements s"
  by (auto simp: add_asset_to_store_def store_new_asset_blind split: outcome_splits)

lemmas add_asset_elements = step_state_elementsD [OF add_asset_blind(2)]

lemma acc_blind_asset: "acc_blind (asset_element W i)"
  unfolding acc_blind_def
proof (intro conjI allI)
  fix s x
  show "asset_element W i (s\<lparr>elements := x\<rparr>) = acc_upd x (asset_element W i s)"
    by (auto simp: asset_element_def Let_def bindE_case bindE_raise_at E_call_eq add_asset_blind(1)
        split: outcome_splits)
  show "elements (step_state (asset_element W i s)) = elements s"
    by (auto simp: asset_element_def Let_def bindE_case bindE_raise_at E_call_eq dest: add_asset_elements
        split: outcome_splits)
qed

lemma asset_element_Inr:
  "asset_element W i s = Inr (e, s') \<longleftrightarrow>
     (\<exists>fe. add_asset_to_store W i s = Inr (fe, s') \<and> kw_ok (asset_kwargs fe (heap s' i)) \<and>
        e = set_caption (heap s' i) (Elem (a_tag (heap s' i)) (asset_kwargs fe (heap s' i)) []))"
  by (auto simp: asset_element_def Let_def bindE_case bindE_raise_at E_call_eq split: outcome_splits if_splits)

lemma kw_ok_asset_kwargs [simp]: "kw_ok (asset_kwargs fe b) \<longleftrightarrow> asset_keys_ok b"
  by (simp add: kw_ok_def asset_kwargs_def asset_keys_ok_def)

lemma asset_element_Inr':
  "asset_element W i s = Inr (e, s') \<longleftrightarrow>
     (\<exists>fe. add_asset_to_store W i s = Inr (fe, s') \<and> asset_keys_ok (heap s' i) \<and>
        e = asset_xml (heap s' i) fe)"
  by (simp add: asset_element_Inr asset_xml_def)

lemma asset_prev_irrelevant [simp]:
  "asset_keys_ok (b\<lparr>a_prev := x\<rparr>) = asset_keys_ok b"
  "asset_kwargs fe (b\<lparr>a_prev := x\<rparr>) = asset_kwargs fe b"
  "set_caption (b\<lparr>a_prev := x\<rparr>) = set_caption b"
  "asset_xml (b\<lparr>a_prev := x\<rparr>) fe = asset_xml b fe"
  by (simp_all add: asset_keys_ok_def asset_kwargs_def set_caption_def fun_eq_iff asset_xml_def)

end
