(* ===== verification/Fixtures.thy ===== *)
theory Fixtures
  imports Visitor
begin

text \<open>
  Concrete inputs on which the theorems are exercised: a writer table in the shape
  of the datapane writers, a store with one file on disk, and asset block objects for
  the paths of \<open>_add_asset_to_store\<close>. A \<open>Figure\<close> payload is supported. A
  \<open>Chart\<close> payload gets its metadata, but writing it raises \<open>DispatchError\<close>.
  Anything else raises \<open>DispatchError\<close> at once. The blocks cover inline data, a
  file reference, neither, a \<open>Media\<close> block with inline data, a plot whose attributes
  already contain \<open>type\<close>, and a chart.
\<close>

definition demo_writers :: writers where
  "demo_writers k =
     \<lparr>get_meta = (\<lambda>d. if payload_type d \<in> {''Figure'', ''Chart''}
                       then Some \<lparr>am_ext = ''.vl.json'', am_mime = ''application/vnd.vegalite+json''\<rparr>
                       else None),
      write_file = (\<lambda>d. if payload_type d = ''Figure'' then Some (payload_value d) else None)\<rparr>"

definition demo_store :: store where
  "demo_store =
     \<lparr>fw_klass = 1, files = [], allocs = 0,
      disk = [(''report.pdf'', (''.pdf'', ''application/pdf'', ''%PDF-1.4''))]\<rparr>"

definition plot_block :: asset_block where
  "plot_block =
     \<lparr>a_kind = Plot, a_tag = ''Plot'', a_attrs = [(''responsive'', ''true'')],
      a_file_attribs = [], a_data = Some (Payload ''Figure'' ''{mark: bar}''), a_file = None,
      a_caption = Some ''Sales'', a_prev = None\<rparr>"

definition demo_heap :: asset_heap where
  "demo_heap =
     (\<lambda>_. plot_block)
       (1 := plot_block\<lparr>a_kind := Attachment, a_tag := ''Attachment'', a_data := None,
                        a_file := Some ''report.pdf'', a_caption := None,
                        a_file_attribs := [(''filename'', ''report.pdf'')]\<rparr>,
        2 := plot_block\<lparr>a_data := None, a_file := None\<rparr>,
        3 := plot_block\<lparr>a_kind := Media, a_tag := ''Media''\<rparr>,
        4 := plot_block\<lparr>a_data := Some (Payload ''DataFrame'' ''a,b'')\<rparr>,
        5 := plot_block\<lparr>a_attrs := [(''type'', ''chart'')]\<rparr>,
        6 := plot_block\<lparr>a_data := Some (Payload ''Chart'' ''x'')\<rparr>)"

definition plot_meta :: asset_meta where
  "plot_meta = \<lparr>am_ext = ''.vl.json'', am_mime = ''application/vnd.vegalite+json''\<rparr>"

definition plot_entry :: "nat \<Rightarrow> file_entry" where
  "plot_entry n =
     \<lparr>fe_klass = 1, fe_name = n, fe_ext = ''.vl.json'', fe_mime = ''application/vnd.vegalite+json'',
      fe_content = ''{mark: bar}''\<rparr>"

definition demo_state :: vstate where
  "demo_state = XMLBuilder demo_store demo_heap [] 0"

text \<open>A report body: one plot used twice, an attachment, a control and some text.\<close>

definition demo_tree :: block where
  "demo_tree =
     BContainer ''Group'' [(''columns'', ''1'')]
       [BAsset 0, BAsset 0, BAsset 1, BInteractive [] (Elem ''Controls'' [] []) SELF,
        BText ''Text'' [] ''hi'']"

end
