(* ===== verification/Render.thy ===== *)
theory Render
  imports Fixtures
begin

text \<open>
  The reference traversal. \<open>render_block\<close> and \<open>render_blocks\<close> return the
  produced element (or elements) instead of appending them to a shared accumulator: the
  explicit output collector that the design notes of the specification propose in place
  of the save/clear/restore discipline of \<open>visit(ContainerBlock)\<close>. The leaf
  handlers are shared with the visitor. The main result, \<open>visit_block_refines\<close>,
  says that the accumulator-based visitor appends exactly the element the reference
  returns and otherwise ends in the same state, on every tree without a nested view,
  errors included. Corollaries: the shape of the output of a static tree, the
  document built for a view.
\<close>

fun render_block :: "writers \<Rightarrow> block \<Rightarrow> vstate \<Rightarrow> xml outcome"
and render_blocks :: "writers \<Rightarrow> block list \<Rightarrow> vstate \<Rightarrow> xml list outcome" where
  "render_block W (BElement t a) s = bindE (raise_at s (E_call t [] a)) (\<lambda>e. Inr (e, s))"
| "render_block W (BContainer t a bs) s =
     bindE (render_blocks W bs s) (\<lambda>(es, s1). bindE (raise_at s1 (E_call t es a)) (\<lambda>e. Inr (e, s1)))"
| "render_block W (BText t a c) s = bindE (raise_at s (E_cdata t c a)) (\<lambda>e. Inr (e, s))"
| "render_block W (BInteractive a c_e tm) s = interactive_element a c_e tm s"
| "render_block W (BAsset i) s = asset_element W i s"
| "render_block W (BView f bs) s =
     bindE (render_blocks W bs s) (\<lambda>(es, s1).
       bindE (raise_at s1 (E_call ''View'' es (mk_attribs_view f))) (\<lambda>e. Inr (e, s1)))"
| "render_blocks W [] s = Inr ([], s)"
| "render_blocks W (b # bs) s =
     bindE (render_block W b s) (\<lambda>(e, s1).
     bindE (render_blocks W bs s1) (\<lambda>(es, s2). Inr (e # es, s2)))"

text \<open>
  A run seen without the accumulator an exception leaves behind. The visitor leaves the
  aborted container's partial list there; the reference traversal has no accumulator.
\<close>

definition forget_acc :: "run \<Rightarrow> run" where
  "forget_acc r = map_sum (\<lambda>(e, s). (e, s\<lparr>elements := []\<rparr>)) id r"

text \<open>Trees of plain elements, containers and text, with attributes a call accepts.\<close>

fun static_ok :: "block \<Rightarrow> bool" where
  "static_ok (BElement t a) \<longleftrightarrow> kw_ok a"
| "static_ok (BContainer t a bs) \<longleftrightarrow> kw_ok a \<and> list_all static_ok bs"
| "static_ok (BText t a c) \<longleftrightarrow> kw_ok a"
| "static_ok _ \<longleftrightarrow> False"

text \<open>The element a static tree stands for: one node per block, children in order.\<close>

fun static_xml :: "block \<Rightarrow> xml" where
  "static_xml (BElement t a) = Elem t a []"
| "static_xml (BContainer t a bs) = Elem t a (map static_xml bs)"
| "static_xml (BText t a c) = CDataElem t a c"
| "static_xml _ = Elem [] [] []"

lemma acc_blindD:
  "acc_blind f \<Longrightarrow> f (s\<lparr>elements := x\<rparr>) = acc_upd x (f s)"
  "acc_blind f \<Longrightarrow> f s = Inr (a, s') \<Longrightarrow> elements s' = elements s"
  "acc_blind f \<Longrightarrow> f s = Inl (e, s') \<Longrightarrow> elements s' = elements s"
  by (auto simp: acc_blind_def dest: step_state_elementsD)

lemma forget_acc_simps [simp]:
  "forget_acc (Inl (e, s)) = Inl (e, s\<lparr>elements := []\<rparr>)" "forget_acc (Inr x) = Inr x"
  by (simp_all add: forget_acc_def)

lemma forget_acc_Inr_iff [simp]: "forget_acc r = Inr x \<longleftrightarrow> r = Inr x"
  by (cases r) (auto simp: forget_acc_def)

lemma render_blind:
  "render_block W b (s\<lparr>elements := x\<rparr>) = acc_upd x (render_block W b s)"
  "render_blocks W bs (s\<lparr>elements := x\<rparr>) = acc_upd x (render_blocks W bs s)"
proof (induction W b s and W bs s rule: render_block_render_blocks.induct)
  case (2 W t a bs s)
  show ?case
    by (simp add: "2.IH" bindE_case bindE_raise_at E_call_eq split: outcome_splits)
next
  case (4 W a c_e tm s)
  show ?case using acc_blindD(1) [OF acc_blind_interactive] by simp
next
  case (5 W i s)
  show ?case using acc_blindD(1) [OF acc_blind_asset] by simp
next
  case (6 W f bs s)
  show ?case
    by (simp add: "6.IH" bindE_case bindE_raise_at E_call_eq split: outcome_splits)
next
  case (8 W b bs s)
  show ?case
  proof (cases "render_block W b s")
    case (Inl r)
    then show ?thesis by (cases r) (simp add: "8.IH"(1))
  next
    case (Inr r)
    obtain e1 s1 where r: "r = (e1, s1)" by (cases r)
    with Inr have "render_blocks W bs (s1\<lparr>elements := x\<rparr>) = acc_upd x (render_blocks W bs s1)"
      using "8.IH"(2) by simp
    with Inr r show ?thesis
      by (simp add: "8.IH"(1) bindE_case split: outcome_splits)
  qed
qed (auto simp: bindE_case bindE_raise_at E_call_eq E_cdata_eq split: outcome_splits)

lemma render_elements:
  "render_block W b s = Inr (e, s') \<Longrightarrow> elements s' = elements s"
  "render_blocks W bs s = Inr (es, s') \<Longrightarrow> elements s' = elements s"
proof (induction W b s and W bs s arbitrary: e s' and es s' rule: render_block_render_blocks.induct)
  case (2 W t a bs s)
  from "2.prems" obtain es where "render_blocks W bs s = Inr (es, s')"
    by (auto simp: bindE_raise_at E_call_eq split: outcome_splits sum.splits if_splits)
  then show ?case by (rule "2.IH")
next
  case (4 W a c_e tm s)
  then have "interactive_element a c_e tm s = Inr (e, s')" by simp
  then show ?case by (rule acc_blindD(2) [OF acc_blind_interactive])
next
  case (5 W i s)
  then have "asset_element W i s = Inr (e, s')" by simp
  then show ?case by (rule acc_blindD(2) [OF acc_blind_asset])
next
  case (6 W f bs s)
  from "6.prems" obtain es where "render_blocks W bs s = Inr (es, s')"
    by (auto simp: bindE_raise_at split: outcome_splits sum.splits)
  then show ?case by (rule "6.IH")
next
  case (8 W b bs s)
  from "8.prems" obtain e1 s1 es1 where r1: "render_block W b s = Inr (e1, s1)"
    and r2: "render_blocks W bs s1 = Inr (es1, s')"
    by (auto split: prod.splits)
  from r1 have "elements s1 = elements s" by (rule "8.IH"(1))
  moreover have "elements s' = elements s1" by (rule "8.IH"(2) [OF r1 refl r2])
  ultimately show ?case by simp
qed (auto simp: bindE_raise_at split: outcome_splits sum.splits)

lemma visit_render:
  "no_view b \<Longrightarrow>
     forget_acc (visit_block W b s) =
       forget_acc (map_sum id (\<lambda>(e, s'). s'\<lparr>elements := elements s @ [e]\<rparr>) (render_block W b s))"
  "list_all no_view bs \<Longrightarrow>
     forget_acc (visit_blocks W bs s) =
       forget_acc (map_sum id (\<lambda>(es, s'). s'\<lparr>elements := elements s @ es\<rparr>) (render_blocks W bs s))"
proof (induction W b s and W bs s rule: visit_block_visit_blocks.induct)
  case (2 W t a bs s)
  from "2.prems" have nv: "list_all no_view bs" by simp
  have v: "forget_acc (visit_blocks W bs (s\<lparr>elements := []\<rparr>)) =
      forget_acc (map_sum id (\<lambda>(es, s'). s'\<lparr>elements := es\<rparr>) (render_blocks W bs s))"
    using "2.IH" [OF refl nv] by (cases "render_blocks W bs s") (auto simp: render_blind split: prod.splits)
  show ?case
  proof (cases "render_blocks W bs s")
    case (Inl r)
    then show ?thesis using v
      by (cases r; cases "visit_blocks W bs (s\<lparr>elements := []\<rparr>)")
         (auto simp: Let_def forget_acc_def)
  next
    case (Inr r)
    obtain es s2 where r: "r = (es, s2)" by (cases r)
    with Inr v have "visit_blocks W bs (s\<lparr>elements := []\<rparr>) = Inr (s2\<lparr>elements := es\<rparr>)" by simp
    with Inr r render_elements(2) [of W bs s es s2] show ?thesis
      by (auto simp: Let_def bindE_raise_at E_call_eq add_element_def)
  qed
next
  case (4 W a c_e tm s)
  show ?case
    by (auto simp: visit_interactive_def add_element_def bindE_case forget_acc_def
        dest: acc_blindD(2,3) [OF acc_blind_interactive] split: outcome_splits)
next
  case (5 W i s)
  show ?case
    by (auto simp: visit_asset_def add_element_def bindE_case forget_acc_def
        dest: acc_blindD(2,3) [OF acc_blind_asset] split: outcome_splits)
next
  case (8 W b bs s)
  from "8.prems" have nb: "no_view b" and nbs: "list_all no_view bs" by simp_all
  show ?case
  proof (cases "render_block W b s")
    case (Inl r)
    then show ?thesis using "8.IH"(1) [OF nb]
      by (cases r; cases "visit_block W b s") (auto simp: forget_acc_def)
  next
    case (Inr r)
    obtain e1 s1 where r: "r = (e1, s1)" by (cases r)
    let ?x = "s1\<lparr>elements := elements s @ [e1]\<rparr>"
    have vb: "visit_block W b s = Inr ?x"
      using Inr r "8.IH"(1) [OF nb] by simp
    have "forget_acc (visit_blocks W bs ?x) =
        forget_acc (map_sum id (\<lambda>(es, s'). s'\<lparr>elements := elements ?x @ es\<rparr>) (render_blocks W bs ?x))"
      by (rule "8.IH"(2) [OF vb nbs])
    then have "forget_acc (visit_blocks W bs ?x) =
        forget_acc (map_sum id (\<lambda>(es, s'). s'\<lparr>elements := elements s @ e1 # es\<rparr>) (render_blocks W bs s1))"
      by (cases "render_blocks W bs s1") (auto simp: render_blind split: prod.splits)
    with vb Inr r show ?thesis
      by (auto simp: bindE_case split: outcome_splits)
  qed
qed (auto simp: add_element_def bindE_case bindE_raise_at E_call_eq E_cdata_eq forget_acc_def split: outcome_splits)

lemma visit_render_Inr:
  "no_view b \<Longrightarrow> visit_block W b s = Inr s' \<longleftrightarrow>
     (\<exists>e s1. render_block W b s = Inr (e, s1) \<and> s' = s1\<lparr>elements := elements s @ [e]\<rparr>)"
  "list_all no_view bs \<Longrightarrow> visit_blocks W bs s = Inr s' \<longleftrightarrow>
     (\<exists>es s1. render_blocks W bs s = Inr (es, s1) \<and> s' = s1\<lparr>elements := elements s @ es\<rparr>)"
proof -
  assume "no_view b"
  from visit_render(1) [OF this, of W s] show "visit_block W b s = Inr s' \<longleftrightarrow>
     (\<exists>e s1. render_block W b s = Inr (e, s1) \<and> s' = s1\<lparr>elements := elements s @ [e]\<rparr>)"
    by (cases "render_block W b s"; cases "visit_block W b s") (auto simp: forget_acc_def)
next
  assume "list_all no_view bs"
  from visit_render(2) [OF this, of W s] show "visit_blocks W bs s = Inr s' \<longleftrightarrow>
     (\<exists>es s1. render_blocks W bs s = Inr (es, s1) \<and> s' = s1\<lparr>elements := elements s @ es\<rparr>)"
    by (cases "render_blocks W bs s"; cases "visit_blocks W bs s") (auto simp: forget_acc_def)
qed

lemma render_static:
  "static_ok b \<Longrightarrow> render_block W b s = Inr (static_xml b, s)"
  "list_all static_ok bs \<Longrightarrow> render_blocks W bs s = Inr (map static_xml bs, s)"
  by (induction W b s and W bs s rule: render_block_render_blocks.induct) auto

lemma static_no_view: "static_ok b \<Longrightarrow> no_view b"
  by (induction b rule: static_ok.induct) (auto simp: list_all_iff)

subsection \<open>Properties\<close>

text \<open>
  C1. Refinement of the reference traversal: on a tree without a nested view, visiting
  a block with any accumulator either raises exactly the exception the reference
  traversal raises, or appends exactly the one element the reference returns, leaving
  the accumulator's earlier contents in place and the rest of the state (store, asset
  memos, registry, name counter) as the reference leaves it.
\<close>

theorem visit_block_refines:
  "no_view b \<Longrightarrow>
     forget_acc (visit_block W b s) =
       forget_acc (map_sum id (\<lambda>(e, s'). s'\<lparr>elements := elements s @ [e]\<rparr>) (render_block W b s))"
  by (rule visit_render(1))

theorem visit_block_refines_witness:
  "no_view (BContainer ''Group'' [] [BAsset 0, BInteractive [] (Elem ''Controls'' [] []) BELOW]) \<and>
   forget_acc (visit_block demo_writers (BContainer ''Group'' [] [BAsset 0, BInteractive [] (Elem ''Controls'' [] []) BELOW]) demo_state) =
   forget_acc (map_sum id (\<lambda>(e, s'). s'\<lparr>elements := elements demo_state @ [e]\<rparr>)
     (render_block demo_writers (BContainer ''Group'' [] [BAsset 0, BInteractive [] (Elem ''Controls'' [] []) BELOW]) demo_state))"
  using visit_block_refines [of "BContainer ''Group'' [] [BAsset 0, BInteractive [] (Elem ''Controls'' [] []) BELOW]" demo_writers demo_state]
  by simp

text \<open>
  C2. The document built for a view: a fresh builder (empty accumulator) visiting a view
  whose children contain no nested view either raises what the reference traversal of
  the children raises, or ends with exactly one element in its accumulator, the root
  \<open>View\<close> node with attributes \<open>version="1"\<close> and \<open>fragment\<close>, whose children are
  the reference elements of the view's children in order.
\<close>

theorem build_view_document:
  "list_all no_view bs \<Longrightarrow>
     forget_acc (build_view W st h m n f bs) =
       forget_acc (map_sum id (\<lambda>(es, s'). s'\<lparr>elements := [Elem ''View'' (mk_attribs_view f) es]\<rparr>)
         (render_blocks W bs (XMLBuilder st h m n)))"
proof -
  assume nv: "list_all no_view bs"
  let ?s = "XMLBuilder st h m n"
  have e: "elements ?s = []" by (simp add: XMLBuilder_def)
  have v: "forget_acc (visit_blocks W bs ?s) =
      forget_acc (map_sum id (\<lambda>(es, s'). s'\<lparr>elements := es\<rparr>) (render_blocks W bs ?s))"
    using visit_render(2) [OF nv, of W ?s] e by simp
  show ?thesis
    using v e by (cases "render_blocks W bs ?s"; cases "visit_blocks W bs ?s")
      (auto simp: build_view_def forget_acc_def split: prod.splits)
qed

theorem build_view_document_witness:
  "list_all no_view [BAsset 1, BText ''Text'' [] ''hi''] \<and>
   forget_acc (build_view demo_writers demo_store demo_heap [] 0 True [BAsset 1, BText ''Text'' [] ''hi'']) =
     forget_acc (map_sum id (\<lambda>(es, s'). s'\<lparr>elements := [Elem ''View'' (mk_attribs_view True) es]\<rparr>)
       (render_blocks demo_writers [BAsset 1, BText ''Text'' [] ''hi''] (XMLBuilder demo_store demo_heap [] 0)))"
  using build_view_document [of "[BAsset 1, BText ''Text'' [] ''hi'']" demo_writers demo_store demo_heap "[]" 0 True]
  by simp

text \<open>
  C3. Shape of a static tree: a tree of plain elements, containers and text blocks whose
  attributes a call accepts is turned into one XML node per block, with the same tags and
  attributes, container children in their original order and text carried verbatim as
  CDATA (no escaping of \<open><\<close> or \<open>&\<close>); the node is appended to the accumulator
  and nothing else in the state changes.
\<close>

theorem static_tree_shape:
  "static_ok b \<Longrightarrow> visit_block W b s = Inr (s\<lparr>elements := elements s @ [static_xml b]\<rparr>)"
  by (simp add: visit_render_Inr(1) [OF static_no_view] render_static)

theorem static_tree_shape_witness:
  "static_ok (BContainer ''Group'' [(''columns'', ''2'')] [BText ''Text'' [] ''a < b & c'', BElement ''Divider'' []]) \<and>
   visit_block demo_writers (BContainer ''Group'' [(''columns'', ''2'')] [BText ''Text'' [] ''a < b & c'', BElement ''Divider'' []]) demo_state =
   Inr (demo_state\<lparr>elements := [Elem ''Group'' [(''columns'', ''2'')] [CDataElem ''Text'' [] ''a < b & c'', Elem ''Divider'' [] []]]\<rparr>)"
proof -
  have ok: "static_ok (BContainer ''Group'' [(''columns'', ''2'')] [BText ''Text'' [] ''a < b & c'', BElement ''Divider'' []])"
    by (simp add: kw_ok_def)
  show ?thesis
    using static_tree_shape [OF ok, of demo_writers demo_state] ok
    by (simp add: demo_state_def XMLBuilder_def)
qed

end
