(* ===== verification/Handlers.thy ===== *)
theory Handlers
  imports Fixtures
begin

text \<open>
  Behaviour of the handlers one block at a time: the interactive desugaring, the asset
  path through \<open>_add_asset_to_store\<close> (memo hit, inline write, file import), every
  exception the asset and view handlers raise, and the writer registry. The last group
  reads the asset element's attributes back as a map, against the precedence the spec
  prescribes (\<open>asset_attr_spec\<close>), and covers the keyword \<open>tag\<close> that no element
  call can take.
\<close>

text \<open>
  The attribute map that section 4.1 of the spec prescribes for an asset element. It is
  the union of the declared and the file attributes, with the file attributes winning,
  plus \<open>type\<close> (the mime type) and \<open>src\<close> (the reference). A non-empty caption is
  set last.
\<close>

definition asset_attr_spec :: "asset_block \<Rightarrow> file_entry \<Rightarrow> string \<Rightarrow> string option" where
  "asset_attr_spec b fe =
     (let base = (dict_get (a_attrs b) ++ dict_get (a_file_attribs b))
                   (''type'' \<mapsto> fe_mime fe, ''src'' \<mapsto> ''ref://'' @ fe_hash fe)
      in case a_caption b of
           Some c \<Rightarrow> if c \<noteq> [] then base(''caption'' \<mapsto> c) else base
         | None \<Rightarrow> base)"

lemma add_asset_memo_hit:
  "a_prev (heap s i) = Some pe \<Longrightarrow> fe_klass pe = fw_klass (store s) \<Longrightarrow>
     add_asset_to_store W i s = Inr (pe, s\<lparr>store := add_file pe (store s)\<rparr>)"
  by (simp add: add_asset_to_store_def)

lemma add_asset_no_memo:
  "\<not> memo_valid s i \<Longrightarrow> add_asset_to_store W i s = store_new_asset W i s"
  by (auto simp: add_asset_to_store_def memo_valid_def split: option.splits)

lemma add_asset_result:
  assumes "add_asset_to_store W i s = Inr (fe, s1)"
  shows "heap s1 i = (heap s i)\<lparr>a_prev := Some fe\<rparr>" and "\<And>j. j \<noteq> i \<Longrightarrow> heap s1 j = heap s j"
    and "fe_klass fe = fw_klass (store s)" and "fw_klass (store s1) = fw_klass (store s)"
    and "elements s1 = elements s" and "name_ctr s1 = name_ctr s"
  using assms
  by (auto simp: add_asset_to_store_def store_new_asset_Inr write_asset_Inr load_file_Inr memo_def
      split: option.splits if_splits)

lemma add_asset_memo_valid:
  "add_asset_to_store W i s = Inr (fe, s1) \<Longrightarrow> memo_valid s1 i"
  using add_asset_result [of W i s fe s1] by (simp add: memo_valid_def)

lemma visit_asset_eq:
  "visit_asset W i s =
     bindE (add_asset_to_store W i s) (\<lambda>(fe, s1).
       if asset_keys_ok (heap s1 i) then Inr (add_element (asset_xml (heap s1 i) fe) s1)
       else Inl (the (kwargs_check (asset_kwargs fe (heap s1 i))), s1))"
  by (auto simp: visit_asset_def asset_element_def asset_xml_def E_call_eq Let_def bindE_case
      split: sum.split prod.split)

lemma visit_asset_memo:
  "a_prev (heap s i) = Some pe \<Longrightarrow> fe_klass pe = fw_klass (store s) \<Longrightarrow> asset_keys_ok (heap s i) \<Longrightarrow>
     visit_block W (BAsset i) s =
       Inr (s\<lparr>elements := elements s @ [asset_xml (heap s i) pe], store := add_file pe (store s)\<rparr>)"
  by (simp add: visit_asset_eq add_asset_memo_hit add_element_def)

lemmas demo_unfold = demo_state_def XMLBuilder_def demo_heap_def plot_block_def demo_store_def

text \<open>
  C4. Interactive block in \<open>SELF\<close> mode: the visitor draws one fresh name and appends a
  single \<open>Interactive\<close> element holding the control XML, whose attributes are the
  block's attributes with \<open>target\<close> and then \<open>name\<close> set to that name.
\<close>

theorem interactive_self:
  "kw_ok a \<Longrightarrow>
     visit_block W (BInteractive a c SELF) s =
       Inr (s\<lparr>elements := elements s @
              [Elem ''Interactive''
                 (dict_set (dict_set a ''target'' (name_of (name_ctr s))) ''name'' (name_of (name_ctr s))) [c]],
             name_ctr := Suc (name_ctr s)\<rparr>)"
  by (simp add: visit_interactive_def interactive_element_def next_name_def gen_name_def add_element_def)

theorem interactive_self_witness:
  "kw_ok [(''label'', ''Run'')] \<and>
   visit_block demo_writers (BInteractive [(''label'', ''Run'')] (Elem ''Controls'' [] []) SELF) demo_state =
     Inr (demo_state\<lparr>elements := [Elem ''Interactive''
              [(''label'', ''Run''), (''target'', ''target_0''), (''name'', ''target_0'')] [Elem ''Controls'' [] []]],
            name_ctr := 1\<rparr>)"
proof -
  have ok: "kw_ok [(''label'', ''Run'')]" by (simp add: kw_ok_def)
  show ?thesis
    using interactive_self [OF ok, of demo_writers "Elem ''Controls'' [] []" demo_state] ok
    by (simp add: demo_state_def XMLBuilder_def name_of_def name_prefix_def nat_digits.simps digit_chars)
qed

text \<open>
  C5. Interactive block in \<open>BELOW\<close> or \<open>SIDE\<close> mode is desugared: one fresh name is
  drawn and a \<open>Group\<close> is appended whose \<open>columns\<close> is \<open>1\<close> for \<open>BELOW\<close> and
  \<open>2\<close> for \<open>SIDE\<close>, with two children: the \<open>Interactive\<close> element with
  \<open>target\<close> set to the name, and a one-column \<open>Group\<close> holding an \<open>Empty\<close>
  placeholder named by it.
\<close>

theorem interactive_desugar:
  "tm \<in> {BELOW, SIDE} \<Longrightarrow> kw_ok a \<Longrightarrow>
     visit_block W (BInteractive a c tm) s =
       Inr (s\<lparr>elements := elements s @
              [Elem ''Group'' [(''columns'', if tm = BELOW then ''1'' else ''2'')]
                 [Elem ''Interactive'' (dict_set a ''target'' (name_of (name_ctr s))) [c],
                  Elem ''Group'' [(''columns'', ''1'')] [Elem ''Empty'' [(''name'', name_of (name_ctr s))] []]]],
             name_ctr := Suc (name_ctr s)\<rparr>)"
  by (auto simp: visit_interactive_def interactive_element_def next_name_def gen_name_def add_element_def)

theorem interactive_desugar_witness:
  "SIDE \<in> {BELOW, SIDE} \<and> kw_ok [] \<and>
   visit_block demo_writers (BInteractive [] (Elem ''Controls'' [] []) SIDE) demo_state =
     Inr (demo_state\<lparr>elements := [Elem ''Group'' [(''columns'', ''2'')]
              [Elem ''Interactive'' [(''target'', ''target_0'')] [Elem ''Controls'' [] []],
               Elem ''Group'' [(''columns'', ''1'')] [Elem ''Empty'' [(''name'', ''target_0'')] []]]],
            name_ctr := 1\<rparr>)"
proof -
  have tm: "SIDE \<in> {BELOW, SIDE}" and ok: "kw_ok []" by (simp_all add: kw_ok_def)
  show ?thesis
    using interactive_desugar [OF tm ok, of demo_writers "Elem ''Controls'' [] []" demo_state] tm ok
    by (simp add: demo_state_def XMLBuilder_def name_of_def name_prefix_def nat_digits.simps digit_chars)
qed

text \<open>
  C6. Dedup within a traversal: once an asset block has been visited successfully, a
  second visit of the same block object succeeds without allocating a new file, emits an
  element identical to the first (same \<open>src\<close> reference) and only re-registers the
  memoised entry.
\<close>

theorem asset_revisit:
  assumes first: "visit_block W (BAsset i) s = Inr s1"
  shows "visit_block W (BAsset i) s1 =
           Inr (s1\<lparr>elements := elements s1 @ [last (elements s1)],
                   store := add_file (the (a_prev (heap s1 i))) (store s1)\<rparr>) \<and>
         allocs (store (s1\<lparr>store := add_file (the (a_prev (heap s1 i))) (store s1)\<rparr>)) = allocs (store s1)"
proof -
  from first obtain fe s0 where add: "add_asset_to_store W i s = Inr (fe, s0)"
    and ok: "asset_keys_ok (heap s0 i)" and s1: "s1 = add_element (asset_xml (heap s0 i) fe) s0"
    by (auto simp: visit_asset_eq split: prod.splits if_splits)
  have h: "heap s1 i = (heap s i)\<lparr>a_prev := Some fe\<rparr>" and "fe_klass fe = fw_klass (store s1)"
    using add_asset_result [OF add] s1 by (simp_all add: add_element_def)
  moreover have "last (elements s1) = asset_xml (heap s1 i) fe"
    using s1 add_asset_result(1) [OF add] by (simp add: add_element_def)
  moreover have "asset_keys_ok (heap s1 i)"
    using ok s1 by (simp add: add_element_def)
  ultimately show ?thesis
    using visit_asset_memo [of s1 i fe W] by simp
qed

theorem asset_revisit_witness:
  "\<exists>s1. visit_block demo_writers (BAsset 0) demo_state = Inr s1 \<and>
     visit_block demo_writers (BAsset 0) s1 =
       Inr (s1\<lparr>elements := elements s1 @ [last (elements s1)],
               store := add_file (the (a_prev (heap s1 0))) (store s1)\<rparr>)"
proof -
  have "\<exists>s1. visit_block demo_writers (BAsset 0) demo_state = Inr s1"
    by (simp add: demo_unfold visit_asset_def asset_element_def add_asset_to_store_def store_new_asset_def
        write_asset_def get_writer_def default_mapping_def demo_writers_def dict_merge_def get_file_def
        asset_kwargs_def kw_ok_def memo_def Let_def)
  then obtain s1 where first: "visit_block demo_writers (BAsset 0) demo_state = Inr s1" by blast
  show ?thesis using first asset_revisit [OF first] by blast
qed

text \<open>
  C7. Writing inline data: for a block without a usable memo whose kind has a registered
  writer that supports its payload, the visitor fills the registry, allocates one fresh
  entry with the writer's extension and mime type, stores the serialised payload in it,
  registers it under its hash, memoises it on the block and appends the element with
  \<open>type\<close> the mime type, the merged attributes, \<open>src="ref://<hash>"\<close> and the caption.
\<close>

theorem asset_inline_write:
  assumes "\<not> memo_valid s i" and "heap s i = b" and "a_data b = Some d"
    and "mapping_wf W (mapping s)" and "a_kind b \<noteq> Media"
    and "get_meta (W (a_kind b)) d = Some meta" and "write_file (W (a_kind b)) d = Some c"
    and "asset_keys_ok b"
  shows "visit_block W (BAsset i) s =
     (let fe = \<lparr>fe_klass = fw_klass (store s), fe_name = allocs (store s), fe_ext = am_ext meta,
                fe_mime = am_mime meta, fe_content = c\<rparr>
      in Inr (s\<lparr>elements := elements s @ [asset_xml b fe],
                store := add_file fe ((store s)\<lparr>allocs := Suc (allocs (store s))\<rparr>),
                heap := (heap s)(i := b\<lparr>a_prev := Some fe\<rparr>),
                mapping := default_mapping W\<rparr>))"
  using assms
  by (simp add: visit_asset_eq add_asset_no_memo store_new_asset_def write_asset_def get_writer_filled
      dict_get_default_mapping get_file_def memo_def add_element_def Let_def)

theorem asset_inline_write_witness:
  "visit_block demo_writers (BAsset 0) demo_state =
     Inr (demo_state\<lparr>elements := [Elem ''Plot'' [(''type'', ''application/vnd.vegalite+json''), (''responsive'', ''true''),
                          (''src'', ''ref://{mark: bar}''), (''caption'', ''Sales'')] []],
          store := add_file (plot_entry 0) (demo_store\<lparr>allocs := 1\<rparr>),
          heap := (heap demo_state)(0 := plot_block\<lparr>a_prev := Some (plot_entry 0)\<rparr>),
          mapping := default_mapping demo_writers\<rparr>)"
  using asset_inline_write [of demo_state 0 plot_block "Payload ''Figure'' ''{mark: bar}''" demo_writers plot_meta
      "''{mark: bar}''"]
  by (simp add: demo_unfold plot_entry_def plot_meta_def memo_valid_def mapping_wf_def demo_writers_def
      asset_keys_ok_def asset_xml_def asset_kwargs_def set_caption_def dict_merge_def fe_hash_def
      content_hash_def Let_def)

text \<open>
  C24. Importing a file (lines 157-158). A block without a usable memo or inline data
  that names a file is imported through \<open>load_file\<close>, and the writer registry is not
  consulted. If the path exists, one fresh entry holds the file's bytes, is registered
  and memoised, and the element is appended. A missing path raises
  \<open>FileNotFoundError\<close>.
\<close>

theorem asset_file_import:
  assumes "\<not> memo_valid s i" and "heap s i = b" and "a_data b = None" and "a_file b = Some p"
    and "asset_keys_ok b"
  shows "visit_block W (BAsset i) s =
     (case dict_get (disk (store s)) p of
        None \<Rightarrow> Inl (FileNotFoundError p, s)
      | Some (ext, mime, c) \<Rightarrow>
          (let fe = \<lparr>fe_klass = fw_klass (store s), fe_name = allocs (store s), fe_ext = ext,
                     fe_mime = mime, fe_content = c\<rparr>
           in Inr (s\<lparr>elements := elements s @ [asset_xml b fe],
                     store := add_file fe ((store s)\<lparr>allocs := Suc (allocs (store s))\<rparr>),
                     heap := (heap s)(i := b\<lparr>a_prev := Some fe\<rparr>)\<rparr>)))"
  using assms
  by (simp add: visit_asset_eq add_asset_no_memo store_new_asset_def load_file_def get_file_def memo_def
      add_element_def Let_def split: option.split prod.split)

theorem asset_file_import_witness:
  "\<not> memo_valid demo_state 1 \<and> a_data (heap demo_state 1) = None \<and>
   a_file (heap demo_state 1) = Some ''report.pdf'' \<and> asset_keys_ok (heap demo_state 1) \<and>
   visit_block demo_writers (BAsset 1) demo_state =
     (case dict_get (disk (store demo_state)) ''report.pdf'' of
        None \<Rightarrow> Inl (FileNotFoundError ''report.pdf'', demo_state)
      | Some (ext, mime, c) \<Rightarrow>
          (let fe = \<lparr>fe_klass = fw_klass (store demo_state), fe_name = allocs (store demo_state),
                     fe_ext = ext, fe_mime = mime, fe_content = c\<rparr>
           in Inr (demo_state\<lparr>elements := elements demo_state @ [asset_xml (heap demo_state 1) fe],
                     store := add_file fe ((store demo_state)\<lparr>allocs := Suc (allocs (store demo_state))\<rparr>),
                     heap := (heap demo_state)(1 := (heap demo_state 1)\<lparr>a_prev := Some fe\<rparr>)\<rparr>)))"
proof -
  have h: "\<not> memo_valid demo_state 1" "a_data (heap demo_state 1) = None"
    "a_file (heap demo_state 1) = Some ''report.pdf''" "asset_keys_ok (heap demo_state 1)"
    by (simp_all add: demo_unfold memo_valid_def asset_keys_ok_def dict_merge_def)
  show ?thesis
    using asset_file_import [OF h(1) refl h(2,3,4), of demo_writers] h by simp
qed


text \<open>
  C8. Reusing the memo: a block whose \<open>_prev_entry\<close> is of the store's entry class is
  not written again; the entry is re-registered with the store (no allocation) and the
  element refers to it.
\<close>

theorem asset_memo_reuse:
  "a_prev (heap s i) = Some pe \<Longrightarrow> fe_klass pe = fw_klass (store s) \<Longrightarrow> asset_keys_ok (heap s i) \<Longrightarrow>
     visit_block W (BAsset i) s =
       Inr (s\<lparr>elements := elements s @ [asset_xml (heap s i) pe], store := add_file pe (store s)\<rparr>)"
  by (rule visit_asset_memo)

theorem asset_memo_reuse_witness:
  "visit_block demo_writers (BAsset 0) (demo_state\<lparr>heap := (heap demo_state)(0 := plot_block\<lparr>a_prev := Some (plot_entry 7)\<rparr>)\<rparr>) =
     Inr (demo_state\<lparr>heap := (heap demo_state)(0 := plot_block\<lparr>a_prev := Some (plot_entry 7)\<rparr>),
          elements := [Elem ''Plot'' [(''type'', ''application/vnd.vegalite+json''), (''responsive'', ''true''),
                          (''src'', ''ref://{mark: bar}''), (''caption'', ''Sales'')] []],
          store := add_file (plot_entry 7) demo_store\<rparr>)"
  using asset_memo_reuse [of "demo_state\<lparr>heap := (heap demo_state)(0 := plot_block\<lparr>a_prev := Some (plot_entry 7)\<rparr>)\<rparr>"
      0 "plot_entry 7" demo_writers]
  by (simp add: demo_unfold plot_entry_def asset_keys_ok_def asset_xml_def asset_kwargs_def set_caption_def
      dict_merge_def fe_hash_def content_hash_def)

text \<open>
  C9. Missing asset content: a block without a usable memo, inline data or file reference
  raises the client error "No asset to add" and changes nothing.
\<close>

theorem asset_missing_error:
  "\<not> memo_valid s i \<Longrightarrow> a_data (heap s i) = None \<Longrightarrow> a_file (heap s i) = None \<Longrightarrow>
     visit_block W (BAsset i) s = Inl (DPClientError ''No asset to add'', s)"
  by (simp add: visit_asset_eq add_asset_no_memo store_new_asset_def)

theorem asset_missing_error_witness:
  "visit_block demo_writers (BAsset 2) demo_state = Inl (DPClientError ''No asset to add'', demo_state)"
  by (rule asset_missing_error) (simp_all add: demo_unfold memo_valid_def)

text \<open>
  C10. Unsupported payload: when the registered writer raises \<open>DispatchError\<close> on the
  payload, the visitor raises the client error naming the payload's type and the
  visitor class, "<type> not supported for XMLBuilder". The registry is left filled.
\<close>

theorem asset_unsupported_payload:
  "\<not> memo_valid s i \<Longrightarrow> a_data (heap s i) = Some d \<Longrightarrow> mapping_wf W (mapping s) \<Longrightarrow>
   a_kind (heap s i) \<noteq> Media \<Longrightarrow> get_meta (W (a_kind (heap s i))) d = None \<Longrightarrow>
     visit_block W (BAsset i) s =
       Inl (DPClientError (payload_type d @ '' not supported for XMLBuilder''), s\<lparr>mapping := default_mapping W\<rparr>)"
  by (simp add: visit_asset_eq add_asset_no_memo store_new_asset_def write_asset_def get_writer_filled
      dict_get_default_mapping dispatch_error_msg_def)

theorem asset_unsupported_payload_witness:
  "visit_block demo_writers (BAsset 4) demo_state =
     Inl (DPClientError ''DataFrame not supported for XMLBuilder'', demo_state\<lparr>mapping := default_mapping demo_writers\<rparr>)"
  using asset_unsupported_payload [of demo_state 4 "Payload ''DataFrame'' ''a,b''" demo_writers]
  by (simp add: demo_unfold memo_valid_def mapping_wf_def demo_writers_def)

text \<open>
  C25. A payload the writer cannot serialise (lines 152-156). When \<open>get_meta\<close> succeeds
  and \<open>write_file\<close> raises \<open>DispatchError\<close>, the visitor raises the client error.
  The entry allocated by \<open>get_file\<close> stays allocated but is never registered, and the
  block gets no memo.
\<close>

theorem asset_write_failure:
  "\<not> memo_valid s i \<Longrightarrow> a_data (heap s i) = Some d \<Longrightarrow> mapping_wf W (mapping s) \<Longrightarrow>
   a_kind (heap s i) \<noteq> Media \<Longrightarrow> get_meta (W (a_kind (heap s i))) d = Some meta \<Longrightarrow>
   write_file (W (a_kind (heap s i))) d = None \<Longrightarrow>
     visit_block W (BAsset i) s =
       Inl (DPClientError (payload_type d @ '' not supported for XMLBuilder''),
            s\<lparr>store := (store s)\<lparr>allocs := Suc (allocs (store s))\<rparr>, mapping := default_mapping W\<rparr>)"
  by (simp add: visit_asset_eq add_asset_no_memo store_new_asset_def write_asset_def get_writer_filled
      dict_get_default_mapping dispatch_error_msg_def get_file_def)

theorem asset_write_failure_witness:
  "visit_block demo_writers (BAsset 6) demo_state =
     Inl (DPClientError ''Chart not supported for XMLBuilder'',
          demo_state\<lparr>store := demo_store\<lparr>allocs := 1\<rparr>, mapping := default_mapping demo_writers\<rparr>)"
  using asset_write_failure [of demo_state 6 "Payload ''Chart'' ''x''" demo_writers plot_meta]
  by (simp add: demo_unfold memo_valid_def mapping_wf_def demo_writers_def plot_meta_def)

text \<open>
  C11. Unregistered block kind: a \<open>Media\<close> block with inline data has no entry in
  \<open>asset_mapping\<close>; the lookup raises \<open>KeyError\<close>, which the \<open>except
  DispatchError\<close> clause does not catch, so the traversal ends with \<open>KeyError\<close> and
  not with the client error. The registry update before the lookup persists.
\<close>

theorem asset_unregistered_kind:
  "\<not> memo_valid s i \<Longrightarrow> a_data (heap s i) = Some d \<Longrightarrow> mapping_wf W (mapping s) \<Longrightarrow>
   a_kind (heap s i) = Media \<Longrightarrow>
     visit_block W (BAsset i) s = Inl (KeyError ''Media'', s\<lparr>mapping := default_mapping W\<rparr>)"
  by (simp add: visit_asset_eq add_asset_no_memo store_new_asset_def write_asset_def get_writer_filled
      dict_get_default_mapping)

theorem asset_unregistered_kind_witness:
  "visit_block demo_writers (BAsset 3) demo_state =
     Inl (KeyError ''Media'', demo_state\<lparr>mapping := default_mapping demo_writers\<rparr>)"
  using asset_unregistered_kind [of demo_state 3 "Payload ''Figure'' ''{mark: bar}''" demo_writers]
  by (simp add: demo_unfold memo_valid_def mapping_wf_def)

text \<open>
  C12. Reserved attribute names: when the merged attributes of an asset block contain
  \<open>type\<close>, the element call receives the keyword \<open>type\<close> twice and raises
  \<open>TypeError\<close>. The exception leaves the state of the completed store step: the
  file is registered and memoised on the block. The attribute union never overrides the
  mime type.
\<close>

theorem asset_reserved_attribute:
  "add_asset_to_store W i s = Inr (fe, s1) \<Longrightarrow> dict_wf (a_attrs (heap s i)) \<Longrightarrow>
   ''type'' \<in> set (dict_keys (dict_merge (a_attrs (heap s i)) (a_file_attribs (heap s i)))) \<Longrightarrow>
     visit_block W (BAsset i) s = Inl (TypeError ''got multiple values for keyword argument type'', s1)"
proof -
  let ?K = "dict_keys (dict_merge (a_attrs (heap s i)) (a_file_attribs (heap s i)))"
  assume add: "add_asset_to_store W i s = Inr (fe, s1)" and wf: "dict_wf (a_attrs (heap s i))"
    and ty: "''type'' \<in> set ?K"
  have "distinct ?K" using wf by (simp add: dict_wf_def [symmetric])
  moreover have "set ?K \<inter> set [''type''] = {''type''}" using ty by auto
  ultimately have "first_dup_from [''type''] (?K @ [''src'']) = Some ''type''"
    by (rule first_dup_from_hit)
  moreover have "\<not> asset_keys_ok (heap s i)" using ty by (simp add: asset_keys_ok_def)
  ultimately show ?thesis
    using add_asset_result(1) [OF add]
    by (simp add: visit_asset_eq add kwargs_check_def asset_kwargs_def first_dup_def)
qed

theorem asset_reserved_attribute_witness:
  "\<exists>fe s1. add_asset_to_store demo_writers 5 demo_state = Inr (fe, s1) \<and> memo_valid s1 5 \<and>
     visit_block demo_writers (BAsset 5) demo_state = Inl (TypeError ''got multiple values for keyword argument type'', s1)"
proof -
  have "\<exists>fe s1. add_asset_to_store demo_writers 5 demo_state = Inr (fe, s1)"
    by (simp add: demo_unfold add_asset_to_store_def store_new_asset_def write_asset_def get_writer_def
        default_mapping_def demo_writers_def dict_merge_def get_file_def Let_def)
  then obtain fe s1 where add: "add_asset_to_store demo_writers 5 demo_state = Inr (fe, s1)" by blast
  have "visit_block demo_writers (BAsset 5) demo_state = Inl (TypeError ''got multiple values for keyword argument type'', s1)"
    by (rule asset_reserved_attribute [OF add]) (simp_all add: demo_unfold dict_wf_def dict_merge_def)
  with add add_asset_memo_valid [OF add] show ?thesis by blast
qed

text \<open>
  C13. The view's defensive assertion: visiting a view with a non-empty accumulator raises
  \<open>AssertionError\<close>.
\<close>

theorem view_not_root_error:
  "elements s \<noteq> [] \<Longrightarrow> visit_block W (BView f bs) s = Inl (AssertionError, s)"
  by simp

theorem view_not_root_error_witness:
  "visit_block demo_writers (BView False []) (demo_state\<lparr>elements := [Elem ''Text'' [] []]\<rparr>) =
     Inl (AssertionError, demo_state\<lparr>elements := [Elem ''Text'' [] []]\<rparr>)"
  by (rule view_not_root_error) simp

text \<open>
  C14. The writer registry: from an empty or filled registry, \<open>get_writer\<close> fills it
  with the four default writers. It returns the writer of a registered kind, and raises
  \<open>KeyError\<close> for \<open>Media\<close> with the registry filled all the same.
\<close>

theorem get_writer_registry:
  "mapping_wf W m \<Longrightarrow>
     get_writer W m k = (default_mapping W, if k = Media then Inl (KeyError ''Media'') else Inr (W k))"
  by (simp add: get_writer_filled dict_get_default_mapping)

theorem get_writer_registry_witness:
  "get_writer demo_writers [] Table = (default_mapping demo_writers, Inr (demo_writers Table)) \<and>
   get_writer demo_writers [] Media = (default_mapping demo_writers, Inl (KeyError ''Media''))"
  using get_writer_registry [of demo_writers "[]" Table] get_writer_registry [of demo_writers "[]" Media]
  by (simp add: mapping_wf_def)

subsection \<open>Attribute precedence and reserved keywords\<close>

lemma asset_kwargs_get:
  assumes ok: "asset_keys_ok b" and wf: "dict_wf (a_file_attribs b)"
  shows "dict_get (asset_kwargs fe b) =
       (dict_get (a_attrs b) ++ dict_get (a_file_attribs b))(''type'' \<mapsto> fe_mime fe, ''src'' \<mapsto> ''ref://'' @ fe_hash fe)"
proof (rule ext)
  fix k
  let ?m = "dict_merge (a_attrs b) (a_file_attribs b)"
  from ok have "''type'' \<notin> fst ` set ?m" "''src'' \<notin> fst ` set ?m"
    by (simp_all add: asset_keys_ok_def)
  then have n: "dict_get ?m ''type'' = None" "dict_get ?m ''src'' = None"
    by (simp_all add: map_of_eq_None_iff)
  have "dict_get (asset_kwargs fe b) k =
      ((dict_get ?m)(''type'' \<mapsto> fe_mime fe, ''src'' \<mapsto> ''ref://'' @ fe_hash fe)) k"
    using n by (auto simp: asset_kwargs_def map_add_def split: option.split)
  then show "dict_get (asset_kwargs fe b) k =
      ((dict_get (a_attrs b) ++ dict_get (a_file_attribs b))(''type'' \<mapsto> fe_mime fe, ''src'' \<mapsto> ''ref://'' @ fe_hash fe)) k"
    by (simp add: dict_get_merge [OF wf])
qed

lemma asset_xml_attrs:
  "asset_keys_ok b \<Longrightarrow> dict_wf (a_file_attribs b) \<Longrightarrow>
     dict_get (xml_attrs (asset_xml b fe)) = asset_attr_spec b fe"
  by (simp add: asset_xml_def set_caption_def asset_attr_spec_def asset_kwargs_get Let_def split: option.split)

lemma asset_attr_spec_prev [simp]: "asset_attr_spec (b\<lparr>a_prev := x\<rparr>) = asset_attr_spec b"
  by (simp add: asset_attr_spec_def fun_eq_iff)

lemma kwargs_check_tag:
  "dict_wf a \<Longrightarrow> ''tag'' \<in> set (dict_keys a) \<Longrightarrow>
     kwargs_check a = Some (TypeError ''got multiple values for argument tag'')"
  by (simp add: kwargs_check_def dict_wf_def first_dup_None [THEN iffD2] del: set_dict_keys)

text \<open>
  C21. Interactive block with any other target (\<open>TOP\<close>, line 110-112): no name is
  drawn. The \<open>Interactive\<close> element carries the block's own attributes and the
  control XML. A keyword the call cannot take raises its \<open>TypeError\<close>.
\<close>

theorem interactive_default:
  "visit_block W (BInteractive a c TOP) s =
     (if kw_ok a then Inr (s\<lparr>elements := elements s @ [Elem ''Interactive'' a [c]]\<rparr>)
      else Inl (the (kwargs_check a), s))"
  by (simp add: visit_interactive_def interactive_element_def E_call_eq add_element_def)

text \<open>
  C22. Attribute precedence on an asset element (lines 123-133). Looked up by name, the
  emitted element's attributes are the block's attributes overridden by its file
  attributes, then \<open>type\<close> = the entry's mime type and \<open>src\<close> = \<open>ref://\<close> and the
  entry's hash. A non-empty caption overrides everything under \<open>caption\<close>.
\<close>

theorem asset_attribute_precedence:
  "visit_block W (BAsset i) s = Inr s' \<Longrightarrow> dict_wf (a_file_attribs (heap s i)) \<Longrightarrow>
     dict_get (xml_attrs (last (elements s'))) = asset_attr_spec (heap s i) (the (a_prev (heap s' i)))"
proof -
  assume v: "visit_block W (BAsset i) s = Inr s'" and wf: "dict_wf (a_file_attribs (heap s i))"
  from v obtain fe s0 where add: "add_asset_to_store W i s = Inr (fe, s0)"
    and ok: "asset_keys_ok (heap s0 i)" and s': "s' = add_element (asset_xml (heap s0 i) fe) s0"
    by (auto simp: visit_asset_eq split: prod.splits if_splits)
  have h: "heap s0 i = (heap s i)\<lparr>a_prev := Some fe\<rparr>" by (rule add_asset_result(1) [OF add])
  with ok wf s' show ?thesis by (simp add: add_element_def asset_xml_attrs)
qed

theorem asset_attribute_precedence_witness:
  "\<exists>s'. visit_block demo_writers (BAsset 1) demo_state = Inr s' \<and>
     dict_wf (a_file_attribs (heap demo_state 1)) \<and>
     dict_get (xml_attrs (last (elements s'))) = asset_attr_spec (heap demo_state 1) (the (a_prev (heap s' 1)))"
proof -
  have wf: "dict_wf (a_file_attribs (heap demo_state 1))"
    by (simp add: demo_state_def XMLBuilder_def demo_heap_def dict_wf_def)
  have "\<exists>s'. visit_block demo_writers (BAsset 1) demo_state = Inr s'"
    by (simp add: demo_unfold visit_asset_def asset_element_def add_asset_to_store_def store_new_asset_def
        load_file_def get_file_def asset_kwargs_def kw_ok_def memo_def Let_def dict_merge_def)
  then show ?thesis using wf asset_attribute_precedence by blast
qed

text \<open>
  C23. Reserved keyword \<open>tag\<close> (lines 55-56, 89-90). A plain or text block whose
  attributes contain \<open>tag\<close> raises \<open>TypeError\<close>, because \<open>E.<tag>(**attrs)\<close> is
  \<open>ElementMaker.__call__(tag, **attrs)\<close> and receives \<open>tag\<close> twice.
\<close>

theorem reserved_tag_attribute:
  "dict_wf a \<Longrightarrow> ''tag'' \<in> set (dict_keys a) \<Longrightarrow>
     visit_block W (BElement t a) s = Inl (TypeError ''got multiple values for argument tag'', s) \<and>
     visit_block W (BText t' a c) s = Inl (TypeError ''got multiple values for argument tag'', s)"
  by (simp add: E_call_eq E_cdata_eq kwargs_check_tag kwargs_check_None [symmetric])

theorem reserved_tag_attribute_witness:
  "dict_wf [(''tag'', ''x'')] \<and> ''tag'' \<in> set (dict_keys [(''tag'', ''x'')]) \<and>
     visit_block demo_writers (BElement ''Divider'' [(''tag'', ''x'')]) demo_state =
       Inl (TypeError ''got multiple values for argument tag'', demo_state) \<and>
     visit_block demo_writers (BText ''Text'' [(''tag'', ''x'')] ''hi'') demo_state =
       Inl (TypeError ''got multiple values for argument tag'', demo_state)"
proof -
  have h: "dict_wf [(''tag'', ''x'')]" "''tag'' \<in> set (dict_keys [(''tag'', ''x'')])" by (simp_all add: dict_wf_def)
  show ?thesis using reserved_tag_attribute [OF h, of demo_writers "''Divider''" demo_state "''Text''" "''hi''"] h
    by simp
qed

end
