(* ===== verification/Traversal.thy ===== *)
theory Traversal
  imports Render Handlers
begin

text \<open>
  Properties of whole traversals. \<open>visit_preserves\<close> is the interface between the
  traversal and its leaf handlers: any relation between states that ignores the
  accumulator, is reflexive and transitive, and is kept by one interactive and one
  asset step, holds between the states before and after visiting any tree (views
  included). Its instances give the invariants of the registry and of the store, and
  the monotonicity of memos, of registered memos and of allocations.
  \<open>visit_establishes\<close> is its per-asset counterpart: a property that an asset's own
  visit makes true and that later visits keep holds for every asset of the tree
  afterwards. This gives \<open>memo_valid\<close> and \<open>memo_stored\<close> for every visited asset.
  Further inductions count what a traversal does. The number of files allocated is
  exactly the number of distinct asset blocks without a usable memo. The memos of
  assets outside the tree are untouched. The name counter advances by one per named
  interactive block. When every asset is already registered, the store's keys do not
  change.
\<close>

lemma blind_rel:
  assumes "\<And>s s' x y. R (s\<lparr>elements := x\<rparr>) (s'\<lparr>elements := y\<rparr>) = R s s'"
  shows "R (s\<lparr>elements := x\<rparr>) t = R s t" and "R s (t\<lparr>elements := y\<rparr>) = R s t"
proof -
  have "R (s\<lparr>elements := x\<rparr>) (t\<lparr>elements := elements t\<rparr>) = R s t" by (rule assms)
  then show "R (s\<lparr>elements := x\<rparr>) t = R s t" by simp
  have "R (s\<lparr>elements := elements s\<rparr>) (t\<lparr>elements := y\<rparr>) = R s t" by (rule assms)
  then show "R s (t\<lparr>elements := y\<rparr>) = R s t" by simp
qed

lemma run_state_bindE:
  "run_state (bindE m f) = (case m of Inl (e, s) \<Rightarrow> s | Inr a \<Rightarrow> run_state (f a))"
  by (cases m) auto

lemma step_state_bindE:
  "step_state (bindE m f) = (case m of Inl (e, s) \<Rightarrow> s | Inr a \<Rightarrow> step_state (f a))"
  by (cases m) auto

lemma visit_preserves:
  assumes blind: "\<And>W s s' x y. R W (s\<lparr>elements := x\<rparr>) (s'\<lparr>elements := y\<rparr>) = R W s s'"
    and refl: "\<And>W s. R W s s" and trans: "\<And>W s1 s2 s3. R W s1 s2 \<Longrightarrow> R W s2 s3 \<Longrightarrow> R W s1 s3"
    and inter: "\<And>W a c tm s. R W s (step_state (interactive_element a c tm s))"
    and asset: "\<And>W i s. R W s (step_state (asset_element W i s))"
  shows "R W s (run_state (visit_block W b s))" and "R W s (run_state (visit_blocks W bs s))"
proof (induction W b s and W bs s rule: visit_block_visit_blocks.induct)
  case (2 W t a bs s)
  have ih: "R W s (run_state (visit_blocks W bs (s\<lparr>elements := []\<rparr>)))"
    using "2.IH" [OF HOL.refl] by (simp add: blind_rel [where R = "R W", OF blind])
  show ?case
  proof (cases "visit_blocks W bs (s\<lparr>elements := []\<rparr>)")
    case (Inl r)
    with ih show ?thesis by (cases r) (simp add: Let_def)
  next
    case (Inr s1)
    with ih show ?thesis
      by (cases "E_call t (elements s1) a")
         (simp_all add: Let_def add_element_def blind_rel [where R = "R W", OF blind])
  qed
next
  case (4 W a c_e tm s)
  have "R W s (step_state (interactive_element a c_e tm s))" by (rule inter)
  then show ?case
    by (cases "interactive_element a c_e tm s")
       (auto simp: visit_interactive_def add_element_def blind_rel [where R = "R W", OF blind])
next
  case (5 W i s)
  have "R W s (step_state (asset_element W i s))" by (rule asset)
  then show ?case
    by (cases "asset_element W i s")
       (auto simp: visit_asset_def add_element_def blind_rel [where R = "R W", OF blind])
next
  case (6 W f bs s)
  show ?case
  proof (cases "elements s = []")
    case True
    with "6.IH" have ih: "R W s (run_state (visit_blocks W bs s))" by simp
    show ?thesis
    proof (cases "visit_blocks W bs s")
      case (Inl r)
      with ih True show ?thesis by (cases r) simp
    next
      case (Inr s1)
      with ih True show ?thesis by (simp add: blind_rel [where R = "R W", OF blind])
    qed
  qed (simp add: refl)
next
  case (8 W b bs s)
  show ?case
  proof (cases "visit_block W b s")
    case (Inl r)
    with "8.IH"(1) show ?thesis by (cases r) simp
  next
    case (Inr s1)
    with "8.IH"(1) "8.IH"(2) [OF Inr] show ?thesis by (auto intro: trans)
  qed
qed (auto simp: add_element_def bindE_raise_at blind_rel [where R = "R W" for W, OF blind] refl
      E_call_eq E_cdata_eq)

lemma visit_preserves_Inr:
  assumes "\<And>W s s' x y. R W (s\<lparr>elements := x\<rparr>) (s'\<lparr>elements := y\<rparr>) = R W s s'"
    and "\<And>W s. R W s s" and "\<And>W s1 s2 s3. R W s1 s2 \<Longrightarrow> R W s2 s3 \<Longrightarrow> R W s1 s3"
    and "\<And>W a c tm s. R W s (step_state (interactive_element a c tm s))"
    and "\<And>W i s. R W s (step_state (asset_element W i s))"
  shows "visit_block W b s = Inr s' \<Longrightarrow> R W s s'" and "visit_blocks W bs s = Inr s' \<Longrightarrow> R W s s'"
proof -
  show "visit_block W b s = Inr s' \<Longrightarrow> R W s s'"
  proof -
    assume v: "visit_block W b s = Inr s'"
    have "R W s (run_state (visit_block W b s))" using assms by (rule visit_preserves(1))
    with v show ?thesis by simp
  qed
  show "visit_blocks W bs s = Inr s' \<Longrightarrow> R W s s'"
  proof -
    assume v: "visit_blocks W bs s = Inr s'"
    have "R W s (run_state (visit_blocks W bs s))" using assms by (rule visit_preserves(2))
    with v show ?thesis by simp
  qed
qed

lemma store_wf_allocs [simp]: "store_wf (st\<lparr>allocs := n\<rparr>) = store_wf st"
  by (simp add: store_wf_def)

lemma memo_valid_upd [simp]:
  "memo_valid (s\<lparr>elements := x\<rparr>) j = memo_valid s j"
  "memo_valid (s\<lparr>name_ctr := n\<rparr>) j = memo_valid s j"
  by (simp_all add: memo_valid_def split: option.split)

lemma interactive_step_state:
  "step_state (interactive_element a c tm s) = s\<lparr>name_ctr := name_ctr s + (if tm = TOP then 0 else 1)\<rparr>"
  by (cases tm) (auto simp: interactive_element_def next_name_def gen_name_def Let_def bindE_raise_at
      step_state_bindE E_call_eq)

lemma interactive_element_state:
  "interactive_element a c tm s = Inr (e, s') \<Longrightarrow> s' = s\<lparr>name_ctr := name_ctr s + (if tm = TOP then 0 else 1)\<rparr>"
  using interactive_step_state [of a c tm s] by simp

lemma asset_step_state: "step_state (asset_element W i s) = step_state (add_asset_to_store W i s)"
  by (auto simp: asset_element_def step_state_bindE bindE_raise_at Let_def E_call_eq split: outcome_splits)

lemma asset_element_add:
  "asset_element W i s = Inr (e, s') \<Longrightarrow> \<exists>fe. add_asset_to_store W i s = Inr (fe, s')"
  by (auto simp: asset_element_Inr')

text \<open>What one call of \<open>_add_asset_to_store\<close> leaves, whether it returns or raises.\<close>

lemma add_asset_total:
  shows "mapping_wf W (mapping s) \<Longrightarrow> mapping_wf W (mapping (step_state (add_asset_to_store W i s)))"
    and "store_wf (store s) \<Longrightarrow> store_wf (store (step_state (add_asset_to_store W i s)))"
    and "allocs (store s) \<le> allocs (store (step_state (add_asset_to_store W i s)))"
    and "fw_klass (store (step_state (add_asset_to_store W i s))) = fw_klass (store s)"
    and "j \<noteq> i \<Longrightarrow> heap (step_state (add_asset_to_store W i s)) j = heap s j"
    and "name_ctr (step_state (add_asset_to_store W i s)) = name_ctr s"
  by (auto simp: add_asset_to_store_def store_new_asset_def write_asset_def get_writer_def load_file_def
      get_file_def memo_def mapping_wf_def default_mapping_def dict_merge_def entry_of_def Let_def
      bindE_raise_at step_state_bindE split: outcome_splits sum.splits list.splits intro!: store_wf_add_file)

lemma add_asset_disk: "disk (store (step_state (add_asset_to_store W i s))) = disk (store s)"
  by (auto simp: add_asset_to_store_def store_new_asset_def write_asset_def get_writer_def load_file_def
      get_file_def add_file_def memo_def Let_def bindE_raise_at step_state_bindE
      split: outcome_splits sum.splits list.splits)

lemma add_asset_Inl:
  "add_asset_to_store W i s = Inl (e, s1) \<Longrightarrow>
     heap s1 = heap s \<and> files (store s1) = files (store s) \<and> fw_klass (store s1) = fw_klass (store s)"
  by (auto simp: add_asset_to_store_def store_new_asset_def write_asset_def get_writer_def load_file_def
      get_file_def Let_def bindE_raise_at split: sum.splits prod.splits option.splits list.splits if_splits)

lemma add_asset_allocs:
  "add_asset_to_store W i s = Inr (fe, s1) \<Longrightarrow>
     allocs (store s1) = allocs (store s) + (if memo_valid s i then 0 else 1)"
  by (auto simp: add_asset_to_store_def store_new_asset_Inr write_asset_Inr load_file_Inr memo_def
      memo_valid_def split: option.splits if_splits)

lemma add_asset_memo_mono:
  "memo_valid s j \<Longrightarrow> memo_valid (step_state (add_asset_to_store W i s)) j"
proof (cases "j = i")
  case True
  assume "memo_valid s j"
  with True obtain pe where "a_prev (heap s i) = Some pe" "fe_klass pe = fw_klass (store s)"
    by (auto simp: memo_valid_def split: option.splits)
  with True show ?thesis by (simp add: add_asset_memo_hit memo_valid_def)
next
  case False
  assume "memo_valid s j"
  with False add_asset_total(4) [where W = W and i = i and s = s]
    add_asset_total(5) [where W = W and i = i and s = s and j = j] show ?thesis
    by (auto simp: memo_valid_def split: option.splits)
qed

lemma visit_mapping_wf_step:
  "mapping_wf W (mapping s) \<Longrightarrow> mapping_wf W (mapping (run_state (visit_block W b s)))"
  by (rule visit_preserves(1) [where R = "\<lambda>W s s'. mapping_wf W (mapping s) \<longrightarrow> mapping_wf W (mapping s')",
        rule_format])
     (auto simp: interactive_step_state asset_step_state intro: add_asset_total(1))

lemma visit_store_wf_step:
  "store_wf (store s) \<Longrightarrow> store_wf (store (run_state (visit_block W b s)))"
  by (rule visit_preserves(1) [where R = "\<lambda>W s s'. store_wf (store s) \<longrightarrow> store_wf (store s')",
        rule_format])
     (auto simp: interactive_step_state asset_step_state intro: add_asset_total(2))

lemma visit_memo_mono:
  "visit_block W b s = Inr s' \<Longrightarrow> memo_valid s j \<Longrightarrow> memo_valid s' j"
  "visit_blocks W bs s = Inr s' \<Longrightarrow> memo_valid s j \<Longrightarrow> memo_valid s' j"
  by (rule visit_preserves_Inr [where R = "\<lambda>W s s'. memo_valid s j \<longrightarrow> memo_valid s' j", rule_format];
      auto simp: interactive_step_state asset_step_state intro: add_asset_memo_mono)+

lemma visit_allocs_mono:
  "visit_block W b s = Inr s' \<Longrightarrow> allocs (store s) \<le> allocs (store s')"
  "visit_blocks W bs s = Inr s' \<Longrightarrow> allocs (store s) \<le> allocs (store s')"
  by (rule visit_preserves_Inr [where R = "\<lambda>W s s'. allocs (store s) \<le> allocs (store s')"];
      auto simp: interactive_step_state asset_step_state intro: order_trans add_asset_total(3))+

lemma finite_asset_ids [simp]: "finite (asset_ids b)"
  by (induction b) auto

text \<open>
  A property of one asset object that its own visit establishes and that every later
  visit keeps holds for every asset of the tree after a traversal.
\<close>

lemma visit_establishes:
  assumes blind: "\<And>s x j. P (s\<lparr>elements := x\<rparr>) j = P s j"
    and asset: "\<And>W i s e s'. asset_element W i s = Inr (e, s') \<Longrightarrow> P s' i"
    and mono: "\<And>W bs s s' j. visit_blocks W bs s = Inr s' \<Longrightarrow> P s j \<Longrightarrow> P s' j"
  shows "visit_block W b s = Inr s' \<Longrightarrow> i \<in> asset_ids b \<Longrightarrow> P s' i"
    and "visit_blocks W bs s = Inr s' \<Longrightarrow> i \<in> (\<Union>b \<in> set bs. asset_ids b) \<Longrightarrow> P s' i"
proof (induction W b s and W bs s arbitrary: s' and s' rule: visit_block_visit_blocks.induct)
  case (2 W t a bs s)
  then show ?case by (auto simp: add_element_def Let_def blind)
next
  case (5 W i' s)
  then show ?case
    by (auto simp: visit_asset_def add_element_def blind dest: asset split: prod.splits)
next
  case (6 W f bs s)
  then show ?case by (auto simp: blind split: if_splits)
next
  case (8 W b bs s)
  from "8.prems" obtain s1 where v1: "visit_block W b s = Inr s1" and v2: "visit_blocks W bs s1 = Inr s'"
    by auto
  show ?case
  proof (cases "i \<in> asset_ids b")
    case True
    with "8.IH"(1) [OF v1] have "P s1 i" by blast
    with v2 show ?thesis by (rule mono)
  next
    case False
    with "8.prems"(2) have "i \<in> (\<Union>b \<in> set bs. asset_ids b)" by simp
    with "8.IH"(2) [OF v1 v2] show ?thesis by blast
  qed
qed auto

lemma visit_memo_ids:
  "visit_block W b s = Inr s' \<Longrightarrow> i \<in> asset_ids b \<Longrightarrow> memo_valid s' i"
  "visit_blocks W bs s = Inr s' \<Longrightarrow> i \<in> (\<Union>b \<in> set bs. asset_ids b) \<Longrightarrow> memo_valid s' i"
  by (rule visit_establishes [where P = memo_valid];
      auto dest!: asset_element_add dest: add_asset_memo_valid visit_memo_mono(2))+

lemma visit_memo_frame:
  "visit_block W b s = Inr s' \<Longrightarrow> j \<notin> asset_ids b \<Longrightarrow> memo_valid s' j = memo_valid s j"
  "visit_blocks W bs s = Inr s' \<Longrightarrow> j \<notin> (\<Union>b \<in> set bs. asset_ids b) \<Longrightarrow> memo_valid s' j = memo_valid s j"
proof (induction W b s and W bs s arbitrary: s' and s' rule: visit_block_visit_blocks.induct)
  case (2 W t a bs s)
  then show ?case by (auto simp: add_element_def Let_def)
next
  case (4 W a c_e tm s)
  then show ?case
    by (auto simp: visit_interactive_def add_element_def dest!: interactive_element_state split: prod.splits)
next
  case (5 W i s)
  from "5.prems" obtain e s1 where el: "asset_element W i s = Inr (e, s1)" and s': "s' = add_element e s1"
    by (auto simp: visit_asset_def split: prod.splits)
  from asset_element_add [OF el] obtain fe where add: "add_asset_to_store W i s = Inr (fe, s1)" by blast
  from "5.prems"(2) have "j \<noteq> i" by simp
  with add_asset_result(2,4) [OF add] s' show ?case
    by (simp add: add_element_def memo_valid_def split: option.split)
next
  case (6 W f bs s)
  then show ?case by (auto split: if_splits)
next
  case (8 W b bs s)
  from "8.prems" obtain s1 where v1: "visit_block W b s = Inr s1" and v2: "visit_blocks W bs s1 = Inr s'"
    by auto
  with "8.prems"(2) "8.IH"(1) [OF v1] "8.IH"(2) [OF v1 v2] show ?case by simp
qed (auto simp: add_element_def)

lemma card_unmemo_split:
  assumes "finite A" "finite B" "\<And>i. i \<in> A \<Longrightarrow> memo_valid s1 i"
    "\<And>i. i \<notin> A \<Longrightarrow> memo_valid s1 i = memo_valid s i"
  shows "card {i \<in> A. \<not> memo_valid s i} + card {i \<in> B. \<not> memo_valid s1 i} = card {i \<in> A \<union> B. \<not> memo_valid s i}"
proof -
  have "{i \<in> B. \<not> memo_valid s1 i} = {i \<in> B - A. \<not> memo_valid s i}" using assms(3,4) by blast
  moreover have "card {i \<in> A. \<not> memo_valid s i} + card {i \<in> B - A. \<not> memo_valid s i}
      = card ({i \<in> A. \<not> memo_valid s i} \<union> {i \<in> B - A. \<not> memo_valid s i})"
    using assms(1,2) by (intro card_Un_disjoint [symmetric]) auto
  moreover have "{i \<in> A. \<not> memo_valid s i} \<union> {i \<in> B - A. \<not> memo_valid s i} = {i \<in> A \<union> B. \<not> memo_valid s i}"
    by blast
  ultimately show ?thesis by simp
qed

lemma visit_allocs_eq:
  "visit_block W b s = Inr s' \<Longrightarrow>
     allocs (store s') = allocs (store s) + card {i \<in> asset_ids b. \<not> memo_valid s i}"
  "visit_blocks W bs s = Inr s' \<Longrightarrow>
     allocs (store s') = allocs (store s) + card {i \<in> (\<Union>b \<in> set bs. asset_ids b). \<not> memo_valid s i}"
proof (induction W b s and W bs s arbitrary: s' and s' rule: visit_block_visit_blocks.induct)
  case (2 W t a bs s)
  then show ?case by (auto simp: add_element_def Let_def)
next
  case (4 W a c_e tm s)
  then show ?case
    by (auto simp: visit_interactive_def add_element_def dest!: interactive_element_state split: prod.splits)
next
  case (5 W i s)
  from "5.prems" obtain e s1 where el: "asset_element W i s = Inr (e, s1)" and s': "s' = add_element e s1"
    by (auto simp: visit_asset_def split: prod.splits)
  from asset_element_add [OF el] obtain fe where add: "add_asset_to_store W i s = Inr (fe, s1)" by blast
  have "{j \<in> asset_ids (BAsset i). \<not> memo_valid s j} = (if memo_valid s i then {} else {i})" by auto
  with add_asset_allocs [OF add] s' show ?case by (simp add: add_element_def split: if_splits)
next
  case (6 W f bs s)
  then show ?case by (auto split: if_splits)
next
  case (8 W b bs s)
  from "8.prems" obtain s1 where v1: "visit_block W b s = Inr s1" and v2: "visit_blocks W bs s1 = Inr s'"
    by auto
  let ?A = "asset_ids b" and ?B = "\<Union>b \<in> set bs. asset_ids b"
  have "card {i \<in> ?A. \<not> memo_valid s i} + card {i \<in> ?B. \<not> memo_valid s1 i} = card {i \<in> ?A \<union> ?B. \<not> memo_valid s i}"
    by (rule card_unmemo_split) (simp_all add: visit_memo_ids(1) [OF v1] visit_memo_frame(1) [OF v1])
  with "8.IH"(1) [OF v1] "8.IH"(2) [OF v1 v2] show ?case by simp
qed (auto simp: add_element_def)

lemma visit_names:
  "visit_block W b s = Inr s' \<Longrightarrow> name_ctr s' = name_ctr s + named_targets b"
  "visit_blocks W bs s = Inr s' \<Longrightarrow> name_ctr s' = name_ctr s + sum_list (map named_targets bs)"
proof (induction W b s and W bs s arbitrary: s' and s' rule: visit_block_visit_blocks.induct)
  case (2 W t a bs s)
  then show ?case by (auto simp: add_element_def Let_def)
next
  case (4 W a c_e tm s)
  then show ?case
    by (auto simp: visit_interactive_def add_element_def dest!: interactive_element_state split: prod.splits)
next
  case (5 W i s)
  then show ?case
    by (auto simp: visit_asset_def add_element_def dest!: asset_element_add dest: add_asset_result(6)
        split: prod.splits)
next
  case (6 W f bs s)
  then show ?case by (auto split: if_splits)
next
  case (8 W b bs s)
  from "8.prems" obtain s1 where v1: "visit_block W b s = Inr s1" and v2: "visit_blocks W bs s1 = Inr s'"
    by auto
  with "8.IH"(1) [OF v1] "8.IH"(2) [OF v1 v2] show ?case by simp
qed (auto simp: add_element_def)

lemma add_asset_files:
  "add_asset_to_store W i s = Inr (fe, s1) \<Longrightarrow> files (store s1) = dict_set (files (store s)) (fe_hash fe) fe"
  by (auto simp: add_asset_to_store_def store_new_asset_Inr write_asset_Inr load_file_Inr memo_def add_file_def
      split: option.splits if_splits)

lemma memo_stored_upd [simp]:
  "memo_stored (s\<lparr>elements := x\<rparr>) j = memo_stored s j"
  "memo_stored (s\<lparr>name_ctr := n\<rparr>) j = memo_stored s j"
  by (simp_all add: memo_stored_def split: option.split)

lemma add_asset_memo_stored:
  assumes add: "add_asset_to_store W i s = Inr (fe, s1)"
  shows "memo_stored s1 i" and "memo_stored s j \<Longrightarrow> memo_stored s1 j"
proof -
  note r = add_asset_result [OF add] and f = add_asset_files [OF add]
  show "memo_stored s1 i" using r f by (simp add: memo_stored_def dict_keys_set [simplified])
  show "memo_stored s j \<Longrightarrow> memo_stored s1 j"
    using r f by (cases "j = i") (auto simp: memo_stored_def dict_keys_set [simplified] split: option.splits)
qed

lemma add_asset_memo_stored_total:
  "memo_stored s j \<Longrightarrow> memo_stored (step_state (add_asset_to_store W i s)) j"
proof (cases "add_asset_to_store W i s")
  case (Inl r)
  then obtain e s1 where "add_asset_to_store W i s = Inl (e, s1)" by (cases r) auto
  moreover assume "memo_stored s j"
  ultimately show ?thesis using add_asset_Inl [of W i s e s1] by (auto simp: memo_stored_def split: option.splits)
next
  case (Inr r)
  then obtain fe s1 where "add_asset_to_store W i s = Inr (fe, s1)" by (cases r) auto
  moreover assume "memo_stored s j"
  ultimately show ?thesis using add_asset_memo_stored(2) by simp
qed

lemma visit_memo_stored_mono:
  "visit_block W b s = Inr s' \<Longrightarrow> memo_stored s j \<Longrightarrow> memo_stored s' j"
  "visit_blocks W bs s = Inr s' \<Longrightarrow> memo_stored s j \<Longrightarrow> memo_stored s' j"
  by (rule visit_preserves_Inr [where R = "\<lambda>W s s'. memo_stored s j \<longrightarrow> memo_stored s' j", rule_format];
      auto simp: interactive_step_state asset_step_state intro: add_asset_memo_stored_total)+

lemma visit_memo_stored_ids:
  "visit_block W b s = Inr s' \<Longrightarrow> i \<in> asset_ids b \<Longrightarrow> memo_stored s' i"
  by (rule visit_establishes(1) [where P = memo_stored];
      auto dest!: asset_element_add dest: add_asset_memo_stored(1) visit_memo_stored_mono(2))

lemma add_asset_stored_keys:
  "add_asset_to_store W i s = Inr (fe, s1) \<Longrightarrow> memo_stored s i \<Longrightarrow>
     dict_keys (files (store s1)) = dict_keys (files (store s))"
proof -
  assume add: "add_asset_to_store W i s = Inr (fe, s1)" and m: "memo_stored s i"
  then have "fe_hash fe \<in> set (dict_keys (files (store s)))"
    and s1: "s1 = s\<lparr>store := add_file fe (store s)\<rparr>"
    by (auto simp: memo_stored_def add_asset_to_store_def simp del: set_dict_keys split: option.splits)
  then show ?thesis by (simp add: add_file_def dict_set_existing del: set_dict_keys)
qed

lemma visit_keys_frame:
  "visit_block W b s = Inr s' \<Longrightarrow> \<forall>i \<in> asset_ids b. memo_stored s i \<Longrightarrow>
     dict_keys (files (store s')) = dict_keys (files (store s))"
  "visit_blocks W bs s = Inr s' \<Longrightarrow> \<forall>i \<in> (\<Union>b \<in> set bs. asset_ids b). memo_stored s i \<Longrightarrow>
     dict_keys (files (store s')) = dict_keys (files (store s))"
proof (induction W b s and W bs s arbitrary: s' and s' rule: visit_block_visit_blocks.induct)
  case (2 W t a bs s)
  then show ?case by (auto simp: add_element_def Let_def)
next
  case (4 W a c_e tm s)
  then show ?case
    by (auto simp: visit_interactive_def add_element_def dest!: interactive_element_state split: prod.splits)
next
  case (5 W i s)
  then show ?case
    by (auto simp: visit_asset_def add_element_def dest!: asset_element_add dest: add_asset_stored_keys
        split: prod.splits)
next
  case (6 W f bs s)
  then show ?case by (auto split: if_splits)
next
  case (8 W b bs s)
  from "8.prems" obtain s1 where v1: "visit_block W b s = Inr s1" and v2: "visit_blocks W bs s1 = Inr s'"
    by auto
  have "\<forall>i \<in> (\<Union>b \<in> set bs. asset_ids b). memo_stored s1 i"
    using "8.prems"(2) visit_memo_stored_mono(1) [OF v1] by auto
  with "8.prems"(2) "8.IH"(1) [OF v1] "8.IH"(2) [OF v1 v2] show ?case by simp
qed (auto simp: add_element_def)

lemma add_asset_memo_stable:
  "memo_valid s i \<Longrightarrow> heap (step_state (add_asset_to_store W j s)) i = heap s i"
  by (cases "j = i") (auto simp: memo_valid_def add_asset_memo_hit add_asset_total(5) split: option.splits)

lemma visit_memo_stable:
  "visit_block W b s = Inr s' \<Longrightarrow> memo_valid s i \<Longrightarrow> heap s' i = heap s i"
  "visit_blocks W bs s = Inr s' \<Longrightarrow> memo_valid s i \<Longrightarrow> heap s' i = heap s i"
  by (rule visit_preserves_Inr [where R = "\<lambda>W s s'. memo_valid s i \<longrightarrow> memo_valid s' i \<and> heap s' i = heap s i",
        THEN mp, THEN conjunct2];
      auto simp: interactive_step_state asset_step_state add_asset_memo_stable intro: add_asset_memo_mono)+

lemma visit_blocks_append:
  "visit_blocks W (xs @ ys) s = bindE (visit_blocks W xs s) (visit_blocks W ys)"
  by (induction xs arbitrary: s) (simp_all add: bindE_case split: sum.split)

lemmas run_defs = visit_asset_def asset_element_def add_asset_to_store_def store_new_asset_def
  write_asset_def get_writer_def default_mapping_def dict_merge_def get_file_def asset_kwargs_def
  kw_ok_def memo_def load_file_def visit_interactive_def interactive_element_def next_name_def
  gen_name_def add_element_def Let_def demo_state_def XMLBuilder_def demo_heap_def plot_block_def
  demo_store_def demo_writers_def demo_tree_def

lemma demo_tree_runs: "\<exists>s'. visit_block demo_writers demo_tree demo_state = Inr s'"
  by (simp add: run_defs)

text \<open>
  C15. Exactly one write per asset object: a successful traversal allocates in the store
  exactly as many files as the tree has distinct asset blocks without a usable memo when
  it starts, however often each block occurs.
\<close>

theorem visit_allocs_exact:
  "visit_block W b s = Inr s' \<Longrightarrow>
     allocs (store s') = allocs (store s) + card {i \<in> asset_ids b. \<not> memo_valid s i}"
  by (rule visit_allocs_eq(1))

theorem visit_allocs_exact_witness:
  "\<exists>s'. visit_block demo_writers demo_tree demo_state = Inr s' \<and>
     allocs (store s') = allocs (store demo_state) + card {i \<in> asset_ids demo_tree. \<not> memo_valid demo_state i}"
  using demo_tree_runs visit_allocs_exact by blast

text \<open>
  C17. Fresh target names: a traversal draws exactly one name per interactive block in
  \<open>SELF\<close>, \<open>BELOW\<close> or \<open>SIDE\<close> mode, and the names it draws are pairwise
  distinct.
\<close>

theorem visit_fresh_names:
  "visit_block W b s = Inr s' \<Longrightarrow>
     name_ctr s' = name_ctr s + named_targets b \<and> distinct (map name_of [name_ctr s..<name_ctr s'])"
  using visit_names(1) [of W b s s'] distinct_map [of name_of] inj_on_subset [OF name_of_inj]
  by simp

theorem visit_fresh_names_witness:
  "\<exists>s'. visit_block demo_writers demo_tree demo_state = Inr s' \<and>
     name_ctr s' = name_ctr demo_state + named_targets demo_tree \<and>
     distinct (map name_of [name_ctr demo_state..<name_ctr s'])"
  using demo_tree_runs visit_fresh_names by blast

text \<open>
  C18. Store invariant: every traversal, whether it returns or raises, leaves the
  content store a dictionary whose entries sit under their own hash and belong to the
  store's entry class. Memoised entries of another class are never registered, and an
  aborted run leaves no half-registered entry.
\<close>

theorem visit_store_wf:
  "store_wf (store s) \<Longrightarrow> store_wf (store (run_state (visit_block W b s)))"
  by (rule visit_store_wf_step)

theorem visit_store_wf_witness:
  "store_wf (store demo_state) \<and>
   store_wf (store (run_state (visit_block demo_writers (BContainer ''Group'' [] [BAsset 0, BAsset 6]) demo_state)))"
proof -
  have h: "store_wf (store demo_state)"
    by (simp add: demo_state_def XMLBuilder_def demo_store_def store_wf_def dict_wf_def)
  show ?thesis by (rule conjI [OF h visit_store_wf [OF h]])
qed

text \<open>
  C16. Memoisation: after a successful traversal every asset block of the tree carries a
  memo of the store's entry class in \<open>_prev_entry\<close>.
\<close>

theorem visit_memoises_assets:
  "visit_block W b s = Inr s' \<Longrightarrow> i \<in> asset_ids b \<Longrightarrow> memo_valid s' i"
  by (rule visit_memo_ids(1))

theorem visit_memoises_assets_witness:
  "\<exists>s'. visit_block demo_writers demo_tree demo_state = Inr s' \<and> memo_valid s' 0 \<and> memo_valid s' 1"
proof -
  have "0 \<in> asset_ids demo_tree" "1 \<in> asset_ids demo_tree" by (simp_all add: demo_tree_def)
  then show ?thesis using demo_tree_runs visit_memoises_assets by blast
qed

end
