(* ===== verification/Progress.thy ===== *)
theory Progress
  imports Traversal
begin

text \<open>
  When the visitor returns. \<open>ready\<close> is a condition on a tree and a state that rules
  out every exception of \<open>xml_visitor.py\<close>:
  \<^item> the element calls' keywords are accepted;
  \<^item> no view is nested;
  \<^item> every asset block either carries a usable memo or can be stored. It can be
    stored when it has inline data of a registered kind whose writer supports the
    payload, or a file reference that exists on disk.
  Readiness of an asset is kept by every visit: the memo write only adds a usable
  memo, and nothing else the condition reads is written. So a ready tree is visited
  without an exception.
\<close>

definition asset_storable :: "writers \<Rightarrow> asset_block \<Rightarrow> (string, string \<times> string \<times> string) pydict \<Rightarrow> bool" where
  "asset_storable W b dk \<longleftrightarrow>
     (case a_data b of
        Some d \<Rightarrow> a_kind b \<noteq> Media \<and> get_meta (W (a_kind b)) d \<noteq> None \<and> write_file (W (a_kind b)) d \<noteq> None
      | None \<Rightarrow> (case a_file b of Some p \<Rightarrow> dict_get dk p \<noteq> None | None \<Rightarrow> False))"

definition asset_ready :: "writers \<Rightarrow> vstate \<Rightarrow> nat \<Rightarrow> bool" where
  "asset_ready W s i \<longleftrightarrow> asset_keys_ok (heap s i) \<and>
     (memo_valid s i \<or> asset_storable W (heap s i) (disk (store s)))"

fun ready :: "writers \<Rightarrow> vstate \<Rightarrow> block \<Rightarrow> bool" where
  "ready W s (BElement t a) \<longleftrightarrow> kw_ok a"
| "ready W s (BContainer t a bs) \<longleftrightarrow> kw_ok a \<and> list_all (ready W s) bs"
| "ready W s (BText t a c) \<longleftrightarrow> kw_ok a"
| "ready W s (BInteractive a c tm) \<longleftrightarrow> kw_ok a"
| "ready W s (BAsset i) \<longleftrightarrow> asset_ready W s i"
| "ready W s (BView f bs) \<longleftrightarrow> False"

lemma asset_ready_upd [simp]:
  "asset_ready W (s\<lparr>elements := x\<rparr>) i = asset_ready W s i"
  "asset_ready W (s\<lparr>name_ctr := n\<rparr>) i = asset_ready W s i"
  by (simp_all add: asset_ready_def)

lemma ready_mono:
  "(\<And>i. asset_ready W s i \<Longrightarrow> asset_ready W s' i) \<Longrightarrow> ready W s b \<Longrightarrow> ready W s' b"
  by (induction W s b rule: ready.induct) (auto simp: list_all_iff)

lemma ready_upd [simp]: "ready W (s\<lparr>elements := x\<rparr>) = ready W s"
  using ready_mono [of W s "s\<lparr>elements := x\<rparr>"] ready_mono [of W "s\<lparr>elements := x\<rparr>" s] by auto

lemma add_asset_ready:
  assumes r: "asset_ready W s j"
  shows "asset_ready W (step_state (add_asset_to_store W i s)) j"
proof (cases "j = i")
  case False
  then show ?thesis
    using r add_asset_total(4) [of W i s] add_asset_total(5) [of j i W s] add_asset_disk [of W i s]
    by (auto simp: asset_ready_def memo_valid_def split: option.splits)
next
  case True
  show ?thesis
  proof (cases "add_asset_to_store W i s")
    case (Inl x)
    then obtain e s1 where a: "add_asset_to_store W i s = Inl (e, s1)" by (cases x) auto
    with r True add_asset_Inl [OF a] add_asset_disk [of W i s] show ?thesis
      by (auto simp: asset_ready_def memo_valid_def split: option.splits)
  next
    case (Inr x)
    then obtain fe s1 where a: "add_asset_to_store W i s = Inr (fe, s1)" by (cases x) auto
    with r True add_asset_result(1) [OF a] add_asset_memo_valid [OF a] show ?thesis
      by (simp add: asset_ready_def)
  qed
qed

lemma visit_ready_mono:
  "visit_block W b s = Inr s' \<Longrightarrow> asset_ready W s i \<Longrightarrow> asset_ready W s' i"
  "visit_blocks W bs s = Inr s' \<Longrightarrow> asset_ready W s i \<Longrightarrow> asset_ready W s' i"
  by (rule visit_preserves_Inr [where R = "\<lambda>W s s'. asset_ready W s i \<longrightarrow> asset_ready W s' i", rule_format];
      auto simp: interactive_step_state asset_step_state intro: add_asset_ready)+

lemma interactive_ok: "kw_ok a \<Longrightarrow> \<exists>e s1. interactive_element a c tm s = Inr (e, s1)"
  by (cases tm) (auto simp: interactive_element_def next_name_def gen_name_def Let_def bindE_raise_at)

lemma asset_ok:
  assumes m: "mapping_wf W (mapping s)" and r: "asset_ready W s i"
  shows "\<exists>e s1. asset_element W i s = Inr (e, s1)"
proof -
  have "\<exists>fe s1. add_asset_to_store W i s = Inr (fe, s1)"
  proof (cases "memo_valid s i")
    case True
    then obtain pe where "a_prev (heap s i) = Some pe" "fe_klass pe = fw_klass (store s)"
      by (auto simp: memo_valid_def split: option.splits)
    then show ?thesis by (simp add: add_asset_memo_hit)
  next
    case False
    with r m show ?thesis
      by (auto simp: asset_ready_def asset_storable_def add_asset_no_memo store_new_asset_def write_asset_def get_writer_filled
          dict_get_default_mapping load_file_def get_file_def Let_def bindE_raise_at split: option.splits)
  qed
  then obtain fe s1 where a: "add_asset_to_store W i s = Inr (fe, s1)" by blast
  have "asset_keys_ok (heap s1 i)" using r add_asset_result(1) [OF a] by (simp add: asset_ready_def)
  with a show ?thesis by (auto simp: asset_element_def Let_def bindE_raise_at)
qed

lemma visit_progress:
  "mapping_wf W (mapping s) \<Longrightarrow> ready W s b \<Longrightarrow> \<exists>s'. visit_block W b s = Inr s'"
  "mapping_wf W (mapping s) \<Longrightarrow> list_all (ready W s) bs \<Longrightarrow> \<exists>s'. visit_blocks W bs s = Inr s'"
proof (induction W b s and W bs s rule: visit_block_visit_blocks.induct)
  case (1 W t a s)
  then show ?case by (simp add: E_call_eq)
next
  case (2 W t a bs s)
  from "2.prems" have "mapping_wf W (mapping (s\<lparr>elements := []\<rparr>))" "list_all (ready W (s\<lparr>elements := []\<rparr>)) bs"
    by simp_all
  then obtain s1 where "visit_blocks W bs (s\<lparr>elements := []\<rparr>) = Inr s1" using "2.IH" [OF HOL.refl] by blast
  with "2.prems" show ?case by (simp add: E_call_eq)
next
  case (3 W t a c s)
  then show ?case by (simp add: E_cdata_eq)
next
  case (4 W a c_e tm s)
  then obtain e s1 where "interactive_element a c_e tm s = Inr (e, s1)" using interactive_ok by fastforce
  then show ?case by (simp add: visit_interactive_def)
next
  case (5 W i s)
  then obtain e s1 where "asset_element W i s = Inr (e, s1)" using asset_ok by fastforce
  then show ?case by (simp add: visit_asset_def)
next
  case (6 W f bs s)
  then show ?case by simp
next
  case (7 W s)
  then show ?case by simp
next
  case (8 W b bs s)
  from "8.IH"(1) "8.prems" obtain s1 where v1: "visit_block W b s = Inr s1" by auto
  have "mapping_wf W (mapping s1)" using visit_mapping_wf_step [OF "8.prems"(1), of b] v1 by simp
  moreover have "list_all (ready W s1) bs"
    using "8.prems"(2) ready_mono [OF visit_ready_mono(1) [OF v1]] by (auto simp: list_all_iff)
  ultimately obtain s2 where "visit_blocks W bs s1 = Inr s2" using "8.IH"(2) [OF v1] by blast
  with v1 show ?case by simp
qed

subsection \<open>Properties\<close>

text \<open>
  C26. Building a document succeeds on ready input. For every store, heap, name counter
  and registry in one of its two possible states, a view whose children are ready
  yields a document: no \<open>TypeError\<close>, \<open>KeyError\<close>, \<open>AssertionError\<close>, client error
  or \<open>FileNotFoundError\<close> is raised.
\<close>

theorem build_view_progress:
  "mapping_wf W m \<Longrightarrow> list_all (ready W (XMLBuilder st h m n)) bs \<Longrightarrow>
     \<exists>s'. build_view W st h m n f bs = Inr s'"
proof -
  assume m: "mapping_wf W m" and r: "list_all (ready W (XMLBuilder st h m n)) bs"
  have "mapping_wf W (mapping (XMLBuilder st h m n))" using m by (simp add: XMLBuilder_def)
  with r obtain s1 where "visit_blocks W bs (XMLBuilder st h m n) = Inr s1" using visit_progress(2) by blast
  then show ?thesis by (simp add: build_view_def XMLBuilder_def bindE_raise_at)
qed

theorem build_view_progress_witness:
  "mapping_wf demo_writers [] \<and>
   list_all (ready demo_writers (XMLBuilder demo_store demo_heap [] 0))
     [BAsset 0, BAsset 1, BInteractive [] (Elem ''Controls'' [] []) SIDE, BAsset 0] \<and>
   (\<exists>s'. build_view demo_writers demo_store demo_heap [] 0 False
     [BAsset 0, BAsset 1, BInteractive [] (Elem ''Controls'' [] []) SIDE, BAsset 0] = Inr s')"
proof -
  have m: "mapping_wf demo_writers []" by (simp add: mapping_wf_def)
  have r: "list_all (ready demo_writers (XMLBuilder demo_store demo_heap [] 0))
     [BAsset 0, BAsset 1, BInteractive [] (Elem ''Controls'' [] []) SIDE, BAsset 0]"
    by (simp add: asset_ready_def XMLBuilder_def demo_heap_def plot_block_def demo_store_def demo_writers_def
        asset_keys_ok_def dict_merge_def kw_ok_def memo_valid_def asset_storable_def)
  show ?thesis using m r build_view_progress [OF m r] by blast
qed

end
