(* ===== verification/Bounds.thy ===== *)
theory Bounds
  imports Traversal
begin

text \<open>
  How far one build grows the store. \<open>FileStore.add_file\<close> keys entries by content
  hash, and the visitor keys each asset object's entry through its memo, so a tree adds
  at most one entry per distinct asset object it holds, however often the object
  recurs and whatever the payload sizes.
\<close>

definition memo_hashes :: "vstate \<Rightarrow> nat set \<Rightarrow> string set" where
  "memo_hashes s I = (\<lambda>i. case a_prev (heap s i) of Some fe \<Rightarrow> fe_hash fe | None \<Rightarrow> []) ` I"

lemma memo_hashes_upd [simp]:
  "memo_hashes (s\<lparr>elements := x\<rparr>) I = memo_hashes s I"
  "memo_hashes (s\<lparr>name_ctr := n\<rparr>) I = memo_hashes s I"
  by (simp_all add: memo_hashes_def)

lemma memo_hashes_cong:
  "(\<And>i. i \<in> I \<Longrightarrow> heap s' i = heap s i) \<Longrightarrow> memo_hashes s' I = memo_hashes s I"
  by (simp add: memo_hashes_def)

lemma card_memo_hashes: "finite I \<Longrightarrow> card (memo_hashes s I) \<le> card I"
  unfolding memo_hashes_def by (rule card_image_le)

lemma add_asset_keys:
  assumes "add_asset_to_store W i s = Inr (fe, s1)"
  shows "fst ` set (files (store s1)) \<subseteq> fst ` set (files (store s)) \<union> memo_hashes s1 {i}"
  using add_asset_files [OF assms] add_asset_result(1) [OF assms]
  by (auto simp: memo_hashes_def dict_keys_set [simplified])

lemma visit_keys_bound:
  "visit_block W b s = Inr s' \<Longrightarrow>
     fst ` set (files (store s')) \<subseteq> fst ` set (files (store s)) \<union> memo_hashes s' (asset_ids b)"
  "visit_blocks W bs s = Inr s' \<Longrightarrow>
     fst ` set (files (store s')) \<subseteq> fst ` set (files (store s)) \<union> memo_hashes s' (\<Union>b \<in> set bs. asset_ids b)"
proof (induction W b s and W bs s arbitrary: s' and s' rule: visit_block_visit_blocks.induct)
  case (2 W t a bs s)
  from "2.prems" obtain s1 where v: "visit_blocks W bs (s\<lparr>elements := []\<rparr>) = Inr s1"
    and s': "s' = add_element (Elem t a (elements s1)) (s1\<lparr>elements := elements s\<rparr>)"
    by (auto simp: Let_def E_call_eq split: if_splits)
  show ?case using "2.IH" [OF HOL.refl v] by (simp add: s' add_element_def)
next
  case (4 W a c_e tm s)
  then show ?case
    by (auto simp: visit_interactive_def add_element_def dest!: interactive_element_state split: prod.splits)
next
  case (5 W i s)
  then obtain e s1 fe where a: "add_asset_to_store W i s = Inr (fe, s1)" and s': "s' = add_element e s1"
    by (auto simp: visit_asset_def dest!: asset_element_add split: prod.splits)
  show ?case using add_asset_keys [OF a] by (simp add: s' add_element_def)
next
  case (6 W f bs s)
  from "6.prems" obtain s1 where e: "elements s = []" and v: "visit_blocks W bs s = Inr s1"
    and s': "s' = s1\<lparr>elements := [Elem ''View'' (mk_attribs_view f) (elements s1)]\<rparr>"
    by (auto simp: E_call_eq split: if_splits)
  show ?case using "6.IH" [OF _ v] e by (simp add: s')
next
  case (8 W b bs s)
  from "8.prems" obtain s1 where v1: "visit_block W b s = Inr s1" and v2: "visit_blocks W bs s1 = Inr s'"
    by auto
  have "memo_hashes s1 (asset_ids b) = memo_hashes s' (asset_ids b)"
    by (rule memo_hashes_cong [symmetric]) (rule visit_memo_stable(2) [OF v2 visit_memo_ids(1) [OF v1]])
  with "8.IH"(1) [OF v1] "8.IH"(2) [OF v1 v2]
  have "fst ` set (files (store s')) \<subseteq>
      fst ` set (files (store s)) \<union> (memo_hashes s' (asset_ids b) \<union> memo_hashes s' (\<Union>b \<in> set bs. asset_ids b))"
    by blast
  then show ?case by (simp add: memo_hashes_def image_Un)
qed (auto simp: add_element_def)

lemma store_count_card: "store_wf st \<Longrightarrow> store_count st = card (fst ` set (files st))"
  using distinct_card [of "map fst (files st)"] by (simp add: store_count_def store_wf_def dict_wf_def dict_keys_def)

text \<open>
  C27. Bound on the store's growth: a successful visit of a tree over a well-formed store
  registers at most as many new entries as the tree has distinct asset objects.
\<close>

theorem visit_store_growth:
  "store_wf (store s) \<Longrightarrow> visit_block W b s = Inr s' \<Longrightarrow>
     builder_store_count s' \<le> builder_store_count s + card (asset_ids b)"
proof -
  assume wf: "store_wf (store s)" and v: "visit_block W b s = Inr s'"
  have wf': "store_wf (store s')" using visit_store_wf_step [OF wf, of W b] v by simp
  have fin: "finite (fst ` set (files (store s)) \<union> memo_hashes s' (asset_ids b))"
    by (simp add: memo_hashes_def)
  have "card (fst ` set (files (store s'))) \<le> card (fst ` set (files (store s)) \<union> memo_hashes s' (asset_ids b))"
    by (rule card_mono [OF fin visit_keys_bound(1) [OF v]])
  also have "\<dots> \<le> card (fst ` set (files (store s))) + card (memo_hashes s' (asset_ids b))"
    by (rule card_Un_le)
  also have "\<dots> \<le> card (fst ` set (files (store s))) + card (asset_ids b)"
    using card_memo_hashes [of "asset_ids b" s'] by simp
  finally show ?thesis using wf wf' by (simp add: builder_store_count_def store_count_card)
qed

theorem visit_store_growth_witness:
  "store_wf (store demo_state) \<and>
   (\<exists>s'. visit_block demo_writers demo_tree demo_state = Inr s' \<and>
      builder_store_count s' \<le> builder_store_count demo_state + card (asset_ids demo_tree))"
proof -
  have h: "store_wf (store demo_state)"
    by (simp add: demo_state_def XMLBuilder_def demo_store_def store_wf_def dict_wf_def)
  obtain s' where v: "visit_block demo_writers demo_tree demo_state = Inr s'" using demo_tree_runs by blast
  show ?thesis using h v visit_store_growth [OF h v] by blast
qed

end
