(* ===== verification/Spec2Isabelle.thy ===== *)
theory Spec2Isabelle
  imports Progress Bounds
begin

text \<open>
  \<^bold>\<open>A verification library for the XML visitor of datapane\<close>
  (\<open>src/python-client/src/datapane/view/xml_visitor.py\<close>).

  \<^bold>\<open>The program.\<close> \<open>XMLBuilder\<close> walks a tree of report blocks depth-first and
  turns it into an lxml element tree. It also writes the assets of the tree (plots,
  tables, attachments) into a content store (\<open>FileStore\<close>). A container saves its
  caller's accumulator \<open>elements\<close>, visits its children into a fresh list, builds its
  element from that list and restores the caller's list (lines 58-68). A \<open>View\<close>
  asserts the accumulator is empty and wraps the result in the root element (70-84).
  Interactive blocks with target \<open>SELF\<close>, \<open>BELOW\<close> or \<open>SIDE\<close> draw a fresh name
  from \<open>gen_name\<close> and are desugared (92-114). An asset block is stored through
  \<open>_add_asset_to_store\<close> (136-163). That method reuses the entry memoised in
  \<open>_prev_entry\<close> when it has the store's entry class. Otherwise it writes the inline
  data with the writer \<open>get_writer\<close> returns, or imports the file. The writer
  registry \<open>asset_mapping\<close> is filled on first use (180-197).

  \<^bold>\<open>Theories and what they model.\<close>
  \<^item> \<open>Prelude\<close>: Python exceptions as the datatype \<open>py_error\<close>. A fallible step
    returns \<open>'e + 'a\<close>, sequenced by \<open>bindE\<close>. \<open>raise_at s\<close> attaches to an
    exception the state the raise leaves behind. Dictionaries are association
    lists (\<open>dict_set\<close> for \<open>d[k] = v\<close>, \<open>dict_merge\<close> for \<open>{**a, **b}\<close>).
    \<open>first_dup\<close> finds the keyword a Python call receives twice.
  \<^item> \<open>Xml_Model\<close>: lxml elements (\<open>xml\<close>), and the \<open>ElementMaker\<close> calls
    \<open>E_call\<close> and \<open>E_cdata\<close>. A call raises \<open>TypeError\<close> in CPython's order:
    first for a keyword given twice at the call site, then for a keyword \<open>tag\<close>,
    which \<open>__call__(tag, *children, **attrib)\<close> already binds positionally.
    \<open>xml_set\<close> is \<open>e.set\<close>. \<open>mk_attribs_view\<close> is the \<open>mk_attribs\<close> call of
    line 81.
  \<^item> \<open>File_Store\<close>: the \<open>FileStore\<close> interface the visitor calls (\<open>fw_klass\<close>,
    \<open>files\<close>, \<open>get_file\<close>, \<open>add_file\<close>, \<open>load_file\<close>). It lives outside
    \<open>src/\<close>, so it is modelled from the spec. Files are keyed by the content hash. A
    counter \<open>allocs\<close> counts the entries \<open>get_file\<close>/\<open>load_file\<close> create, that is
    the files written.
  \<^item> \<open>Blocks\<close>: the block variants the multimethod dispatches on (\<open>block\<close>), the
    asset kinds, the target modes, and the asset block object (\<open>asset_block\<close>).
    Asset objects live in a heap indexed by \<open>nat\<close>, because the memo write of line 162
    mutates the object, and one object may occur several times in a tree.
  \<^item> \<open>Writers\<close>: \<open>AssetMeta\<close>, the \<open>AssetWriterP\<close> protocol (\<open>writer\<close>: a
    \<open>None\<close> result is a \<open>DispatchError\<close>), \<open>asset_mapping\<close> and \<open>get_writer\<close>.
  \<^item> \<open>Names\<close>: \<open>gen_name\<close> as a counter printed in decimal after a prefix. The
    decimal printing has a parse-back \<open>read_name\<close>, so names are injective.
  \<^item> \<open>Visitor\<close>: the state \<open>vstate\<close> (accumulator, store, heap, registry, name
    counter) and one definition per method: \<open>add_element\<close>,
    \<open>interactive_element\<close>/\<open>visit_interactive\<close>, \<open>write_asset\<close>,
    \<open>store_new_asset\<close>, \<open>add_asset_to_store\<close>, \<open>asset_element\<close>/\<open>visit_asset\<close>.
    The multimethod is the mutual recursion \<open>visit_block\<close>/\<open>visit_blocks\<close>, where
    \<open>visit_blocks\<close> is \<open>traverse\<close>. \<open>build_view\<close> constructs an \<open>XMLBuilder\<close>
    and visits a \<open>View\<close>. A handler returns \<open>'a outcome\<close> and a visit returns
    \<open>run\<close>. Either way an exception carries the state it leaves: registered files,
    written memos, the filled registry, the advanced name counter, and the partial list
    of an aborted container. These are what the Python objects keep after the raise
    (\<open>run_state\<close> and \<open>step_state\<close> read that state off).
  \<^item> \<open>Fixtures\<close>: a concrete writer table, store, heap and tree on which the
    witnesses evaluate the model by \<open>simp\<close>.
  \<^item> \<open>Render\<close>: the reference traversal \<open>render_block\<close>, which returns each element
    instead of appending it to a shared list, and the refinement of \<open>visit_block\<close>
    against it (C1-C3). The refinement is exact on success. On failure it holds up to
    the accumulator (\<open>forget_acc\<close>), which the reference does not have.
  \<^item> \<open>Handlers\<close>: every branch of the interactive and asset handlers, with its
    errors, the registry, the attribute precedence of asset elements and the reserved
    keyword \<open>tag\<close> (C4-C14, C21-C25).
  \<^item> \<open>Traversal\<close>: invariants of whole traversals (C15-C18), by computation
    induction once in the generic lemma \<open>visit_preserves\<close>.
  \<^item> \<open>Progress\<close>: a readiness condition \<open>ready\<close> on a tree and a state that rules
    out every exception, kept by every visit, under which \<open>build_view\<close> returns a
    document (C26).
  \<^item> \<open>Bounds\<close>: the store grows by at most one entry per distinct asset object of the
    tree (C27).
  \<^item> this theory: properties that span the components (C19, C20).

  \<^bold>\<open>What the lemmas show.\<close>
  \<^item> The accumulator discipline is correct. A visit appends exactly the element of
    the reference traversal and leaves the caller's list untouched (C1). A view yields
    exactly one root element (C2). Static trees give the expected XML shape with the
    children in order (C3).
  \<^item> Each handler branch behaves as the code does: the \<open>SELF\<close> and the
    \<open>BELOW\<close>/\<open>SIDE\<close> desugaring, the memo reuse, the inline write, the file import,
    and every error path (missing asset, unsupported payload, unregistered kind,
    reserved attribute names, nested view), each with the exact state it leaves. The
    registry is filled lazily and stays filled after a \<open>KeyError\<close> (C4-C14). A
    serialisation failure leaves an allocated, unregistered entry (C25).
    The default target keeps the block's attributes (C21). On an asset element, file
    attributes override declared ones, and the caption is set last (C22). A \<open>tag\<close>
    attribute always raises \<open>TypeError\<close> (C23). A file reference is imported
    without consulting the registry (C24).
  \<^item> Whole traversals keep their invariants. Exactly one file is allocated per
    distinct asset object without a valid memo, however often it occurs (C15).
    Afterwards every asset is memoised (C16). The name counter advances by exactly one
    per named interactive block, so target names are pairwise distinct (C17). The store
    invariant holds after every run, including a run that raised (C18). A second
    traversal allocates nothing and leaves the store's keys and count unchanged (C19).
    The generic inductions \<open>visit_preserves\<close> (a relation kept by every step) and
    \<open>visit_establishes\<close> (a per-asset property made by its visit and kept afterwards)
    carry these proofs.
  \<^item> The assertion of line 73 only checks the accumulator, so a view nested as the
    first child of a container is accepted, and one after a sibling raises (C20).
  \<^item> Liveness: a view over ready children, with the registry empty or filled, always
    yields a document (C26). The store count grows by at most the number of distinct
    asset objects of the tree, however often they recur (C27).

  \<^bold>\<open>Executability and termination.\<close> Every function of the model is recursive
  over the block tree, lists or digits, and \<open>fun\<close> proves its termination. So
  \<open>visit_block\<close> terminates on every tree, and the model evaluates by \<open>simp\<close> on
  the fixtures. No fuel or partial function is needed.

  \<^bold>\<open>Not modelled.\<close>
  \<^item> lxml's serialisation and its CDATA escaping: an element is a term.
  \<^item> The bodies of the concrete writers in \<open>asset_writers.py\<close>: a writer is a
    parameter \<open>W\<close>, so every theorem holds for all writers.
  \<^item> The physical storage of \<open>FileStore\<close> and its hashing: the hash is the identity
    on the content.
  \<^item> \<open>controls._to_xml()\<close>: the control XML is an argument of the interactive block.
  \<^item> Python's recursion limit: the interpreter's stack bounds the nesting depth of
    a tree, and a deeper tree raises \<open>RecursionError\<close>. The model has an unbounded
    stack, so every theorem holds for trees within the limit.
  \<^item> Python's \<open>-O\<close> mode, which removes the assertion of line 73.
\<close>

text \<open>
  C19. Re-traversal writes nothing: visiting a tree a second time, after a successful
  first visit and with any accumulator, allocates no file in the store and registers no
  new hash, so the store's keys and \<open>store_count\<close> are unchanged. Every asset
  object now carries a memo of the store's class, so \<open>_add_asset_to_store\<close> takes
  the early return of line 143 each time.
\<close>

theorem retraversal_writes_nothing:
  "visit_block W b s = Inr s1 \<Longrightarrow> visit_block W b (s1\<lparr>elements := acc\<rparr>) = Inr s2 \<Longrightarrow>
     allocs (store s2) = allocs (store s1) \<and> dict_keys (files (store s2)) = dict_keys (files (store s1)) \<and>
     builder_store_count s2 = builder_store_count s1"
proof -
  assume v1: "visit_block W b s = Inr s1" and v2: "visit_block W b (s1\<lparr>elements := acc\<rparr>) = Inr s2"
  have "{i \<in> asset_ids b. \<not> memo_valid (s1\<lparr>elements := acc\<rparr>) i} = {}"
    using visit_memo_ids(1) [OF v1] by auto
  then have a: "allocs (store s2) = allocs (store s1)"
    using visit_allocs_eq(1) [OF v2] by (simp only: card.empty) simp
  have "\<forall>i \<in> asset_ids b. memo_stored (s1\<lparr>elements := acc\<rparr>) i"
    using visit_memo_stored_ids [OF v1] by simp
  then have k: "dict_keys (files (store s2)) = dict_keys (files (store s1))"
    using visit_keys_frame(1) [OF v2] by simp
  then have "length (files (store s2)) = length (files (store s1))"
    by (metis dict_keys_def length_map)
  with a k show ?thesis by (simp add: builder_store_count_def store_count_def)
qed

theorem retraversal_writes_nothing_witness:
  "\<exists>s1 s2. visit_block demo_writers demo_tree demo_state = Inr s1 \<and>
     visit_block demo_writers demo_tree (s1\<lparr>elements := []\<rparr>) = Inr s2 \<and>
     allocs (store s2) = allocs (store s1) \<and> dict_keys (files (store s2)) = dict_keys (files (store s1)) \<and>
     builder_store_count s2 = builder_store_count s1"
proof -
  have "\<exists>s1 s2. visit_block demo_writers demo_tree demo_state = Inr s1 \<and>
      visit_block demo_writers demo_tree (s1\<lparr>elements := []\<rparr>) = Inr s2"
    by (simp add: run_defs)
  then show ?thesis using retraversal_writes_nothing by blast
qed

text \<open>
  C20. The assertion of line 73 does not keep a \<open>View\<close> at the root. For every
  state, writer table and container, a view that is the first child of the container is
  accepted, because the container has just emptied the accumulator, and it is emitted
  nested inside the container's element, whenever the view's own children succeed. A
  view after a sibling without a view raises \<open>AssertionError\<close>, and the aborted
  container leaves the sibling's element in the accumulator.
\<close>

theorem view_nesting_assertion:
  assumes v: "visit_blocks W bs (s\<lparr>elements := []\<rparr>) = Inr s1" and ok: "kw_ok a"
    and nv: "no_view b" and v2: "visit_block W b (s\<lparr>elements := []\<rparr>) = Inr s2"
  shows "visit_block W (BContainer t a [BView f bs]) s =
           Inr (add_element (Elem t a [Elem ''View'' (mk_attribs_view f) (elements s1)]) (s1\<lparr>elements := elements s\<rparr>)) \<and>
         visit_block W (BContainer t a [b, BView f bs']) s = Inl (AssertionError, s2)"
proof
  show "visit_block W (BContainer t a [BView f bs]) s =
      Inr (add_element (Elem t a [Elem ''View'' (mk_attribs_view f) (elements s1)]) (s1\<lparr>elements := elements s\<rparr>))"
    using v ok by (simp add: Let_def E_call_eq)
next
  from v2 obtain e s3 where "s2 = s3\<lparr>elements := [e]\<rparr>"
    using visit_render_Inr(1) [OF nv] by fastforce
  then have "elements s2 \<noteq> []" by simp
  with v2 show "visit_block W (BContainer t a [b, BView f bs']) s = Inl (AssertionError, s2)"
    by (simp add: Let_def)
qed

theorem view_nesting_assertion_witness:
  "visit_blocks demo_writers [BText ''Text'' [] ''x''] (demo_state\<lparr>elements := []\<rparr>) =
     Inr (demo_state\<lparr>elements := [CDataElem ''Text'' [] ''x'']\<rparr>) \<and> kw_ok [] \<and>
   no_view (BText ''Text'' [] ''y'') \<and>
   visit_block demo_writers (BText ''Text'' [] ''y'') (demo_state\<lparr>elements := []\<rparr>) =
     Inr (demo_state\<lparr>elements := [CDataElem ''Text'' [] ''y'']\<rparr>) \<and>
   visit_block demo_writers (BContainer ''Group'' [] [BView True [BText ''Text'' [] ''x'']]) demo_state =
     Inr (add_element (Elem ''Group'' [] [Elem ''View'' (mk_attribs_view True) [CDataElem ''Text'' [] ''x'']])
            (demo_state\<lparr>elements := [CDataElem ''Text'' [] ''x'']\<rparr>\<lparr>elements := elements demo_state\<rparr>)) \<and>
   visit_block demo_writers (BContainer ''Group'' [] [BText ''Text'' [] ''y'', BView True []]) demo_state =
     Inl (AssertionError, demo_state\<lparr>elements := [CDataElem ''Text'' [] ''y'']\<rparr>)"
proof -
  have v: "visit_blocks demo_writers [BText ''Text'' [] ''x''] (demo_state\<lparr>elements := []\<rparr>) =
     Inr (demo_state\<lparr>elements := [CDataElem ''Text'' [] ''x'']\<rparr>)"
    by (simp add: demo_state_def XMLBuilder_def add_element_def E_cdata_eq kw_ok_def)
  have ok: "kw_ok []" by (simp add: kw_ok_def)
  have nv: "no_view (BText ''Text'' [] ''y'')" by simp
  have v2: "visit_block demo_writers (BText ''Text'' [] ''y'') (demo_state\<lparr>elements := []\<rparr>) =
     Inr (demo_state\<lparr>elements := [CDataElem ''Text'' [] ''y'']\<rparr>)"
    by (simp add: demo_state_def XMLBuilder_def add_element_def E_cdata_eq kw_ok_def)
  show ?thesis using v ok nv v2 view_nesting_assertion [OF v ok nv v2, where t = "''Group''" and f = True and bs' = "[]"] by simp
qed

end
